theory Spec2Isabelle
  imports Complex_Main
begin

section \<open>Data model\<close>

text \<open>
  The pipeline of \<^verbatim>\<open>src/preprocessing.py\<close> (percentile band) and of
  \<^verbatim>\<open>src/preprocessing_timeseries.py\<close> (parametric z-band) reads one extract with a
  row per client and reporting period. Amounts are modelled as exact real numbers; a
  cell that is missing in the extract (NaN in pandas) is \<open>None\<close>. The Cyrillic column
  names are transliterated: \<open>klyuch_klienta\<close> is the client key, \<open>oboroty\<close> holds the
  cells of the turnover columns (prefix \<^verbatim>\<open>oborot_\<close>) in column order, \<open>vozrast\<close> is
  the age.
\<close>

type_synonym cell = "real option"

record raw_row =
  klyuch_klienta :: nat
  oboroty :: "cell list"
  vozrast :: cell

text \<open>
  A data frame is its rows together with the columns it has: looking up a column that
  the frame lacks raises \<^verbatim>\<open>KeyError\<close>.
\<close>

record dataframe =
  has_klyuch :: bool
  has_vozrast :: bool
  rows :: "raw_row list"

datatype error = KeyError | OSError | ValueError

section \<open>Array operations of numpy\<close>

text \<open>The defined entries of an array, NaN dropped.\<close>

fun known :: "cell list \<Rightarrow> real list" where
  "known [] = []"
| "known (None # cs) = known cs"
| "known (Some x # cs) = x # known cs"

text \<open>\<^verbatim>\<open>a[a > 0]\<close>: a comparison with NaN is false, so missing cells go as well.\<close>

definition positive :: "cell list \<Rightarrow> real list" where
  "positive cs = filter (\<lambda>x. 0 < x) (known cs)"

definition mean :: "real list \<Rightarrow> real" where
  "mean xs = sum_list xs / real (length xs)"

text \<open>\<^verbatim>\<open>np.median\<close>: the middle element, or the mean of the two middle ones.\<close>

definition median :: "real list \<Rightarrow> real" where
  "median xs =
     (let s = sort xs; n = length s
      in if odd n then s ! (n div 2) else (s ! (n div 2 - 1) + s ! (n div 2)) / 2)"

text \<open>\<^verbatim>\<open>ndarray.std\<close>: the population standard deviation (\<^verbatim>\<open>ddof=0\<close>).\<close>

definition std :: "real list \<Rightarrow> real" where
  "std xs = sqrt (sum_list (map (\<lambda>x. (x - mean xs)\<^sup>2) xs) / real (length xs))"

text \<open>
  \<^verbatim>\<open>np.percentile(a, q)\<close> with the default linear interpolation: the virtual index
  \<open>q / 100 * (n - 1)\<close> into the sorted array, interpolated between its two neighbours.
\<close>

definition lerp_at :: "real list \<Rightarrow> real \<Rightarrow> real" where
  "lerp_at s v =
     (let lo = nat \<lfloor>v\<rfloor>; hi = min (lo + 1) (length s - 1)
      in s ! lo + (s ! hi - s ! lo) * (v - real lo))"

definition percentile :: "real list \<Rightarrow> real \<Rightarrow> real" where
  "percentile a q = lerp_at (sort a) (q / 100 * real (length a - 1))"

text \<open>\<^verbatim>\<open>Series.unique\<close>: the distinct values in order of first appearance.\<close>

definition unique :: "'a list \<Rightarrow> 'a list" where
  "unique xs = rev (remdups (rev xs))"

section \<open>Baseline statistics calculator\<close>

record baseline_row =
  b_klyuch :: nat
  b_oborot_mean :: real
  b_oborot_std :: real
  b_cv :: real
  b_ci_lower :: real
  b_ci_upper :: real
  b_tranzakcii_kol :: nat
  b_koncentraciya :: real
  b_vozrast :: cell

text \<open>
  The turnover history of a client: the turnover cells of all its rows, flattened row
  by row, the positive ones kept (lines 40 to 44).
\<close>

definition client_oborots :: "nat \<Rightarrow> raw_row list \<Rightarrow> real list" where
  "client_oborots client_id rs =
     positive (concat (map oboroty (filter (\<lambda>r. klyuch_klienta r = client_id) rs)))"

text \<open>Lines 71 to 79: the three largest entries over the sum of all of them.\<close>

definition concentration_of :: "real list \<Rightarrow> real" where
  "concentration_of all_spending =
     (if length all_spending > 0
      then (if length all_spending \<ge> 3
            then sum_list (drop (length all_spending - 3) (sort all_spending))
            else sum_list all_spending) / sum_list all_spending
      else 0)"

text \<open>Lines 61 to 69: the spread between the 65th and 35th percentile over the median.\<close>

definition cv_of :: "real list \<Rightarrow> real" where
  "cv_of oborots =
     (let q75 = percentile oborots 65; q25 = percentile oborots 35;
          iqr = q75 - q25; median_oborot = median oborots
      in if median_oborot > 0 then iqr / median_oborot else 0)"

text \<open>
  The body of the loop over the clients. \<open>None\<close> is the \<^verbatim>\<open>continue\<close> of line 47. The
  test of line 54 for an undefined mean cannot fire here: the history is non-empty and
  holds no missing cell.
\<close>

definition client_baseline :: "nat \<Rightarrow> raw_row list \<Rightarrow> baseline_row option" where
  "client_baseline client_id rs =
     (let client_data = filter (\<lambda>r. klyuch_klienta r = client_id) rs;
          oborots = client_oborots client_id rs
      in if length oborots = 0 then None
         else Some \<lparr> b_klyuch = client_id,
                     b_oborot_mean = mean oborots,
                     b_oborot_std = std oborots,
                     b_cv = cv_of oborots,
                     b_ci_lower = percentile oborots 15,
                     b_ci_upper = percentile oborots 85,
                     b_tranzakcii_kol = length oborots,
                     b_koncentraciya = concentration_of oborots,
                     b_vozrast = vozrast (hd client_data) \<rparr>)"

text \<open>\<^verbatim>\<open>DataFrame.dropna\<close>: the only field of a row that can be missing is the age.\<close>

definition dropna :: "baseline_row list \<Rightarrow> baseline_row list" where
  "dropna bs = filter (\<lambda>b. b_vozrast b \<noteq> None) bs"

text \<open>
  The calculator. Line 39 needs the client key column; line 93 needs the age column as
  soon as one client has a positive turnover. A list of no rows makes a frame of no
  columns, and the report of line 101 then fails looking up the mean column.
\<close>

definition calculate_client_baseline :: "dataframe \<Rightarrow> error + baseline_row list" where
  "calculate_client_baseline df =
     (if \<not> has_klyuch df then Inl KeyError
      else let baseline_stats =
                 List.map_filter (\<lambda>c. client_baseline c (rows df))
                   (unique (map klyuch_klienta (rows df)))
           in if baseline_stats \<noteq> [] \<and> \<not> has_vozrast df then Inl KeyError
              else if baseline_stats = [] then Inl KeyError
              else Inr (dropna baseline_stats))"

section \<open>Anomaly detector, percentile band\<close>

datatype tip = Vysokie_rashody | Nizkie_rashody

datatype prioritet = Vysokij | Srednij

text \<open>
  A row of the anomalies table. The source renders the expected range as a text of the
  two bounds; the record keeps the bounds themselves. \<open>a_otklonenie\<close> is the column
  \<^verbatim>\<open>otklonenie_%\<close>.
\<close>

record anomaly =
  a_klyuch :: nat
  a_tip :: tip
  a_tekushchij_oborot :: real
  a_diapazon :: "real \<times> real"
  a_otklonenie :: real
  a_prioritet :: prioritet

text \<open>
  The body of the loop of \<^verbatim>\<open>identify_anomalies\<close> over the rows of the extract
  (lines 118 to 148); \<open>None\<close> is a row that appends nothing. The baseline mean of a row
  that the calculator emitted is positive, so the divisor of line 137 is not zero.
\<close>

definition anomaly_of_row :: "baseline_row list \<Rightarrow> raw_row \<Rightarrow> anomaly option" where
  "anomaly_of_row baseline_df row =
     (let client_id = klyuch_klienta row;
          oborots = positive (oboroty row)
      in if length oborots = 0 then None
         else let current_oborot = mean oborots;
                  baseline = filter (\<lambda>b. b_klyuch b = client_id) baseline_df
              in if length baseline = 0 then None
                 else let ci_lower = b_ci_lower (hd baseline);
                          ci_upper = b_ci_upper (hd baseline);
                          mean_oborot = b_oborot_mean (hd baseline);
                          is_anomaly = (current_oborot < ci_lower \<or> current_oborot > ci_upper);
                          deviation_pct =
                            ((current_oborot - mean_oborot) / (mean_oborot + 1)) * 100
                      in if is_anomaly
                         then Some \<lparr> a_klyuch = client_id,
                                     a_tip = (if current_oborot > ci_upper
                                              then Vysokie_rashody else Nizkie_rashody),
                                     a_tekushchij_oborot = current_oborot,
                                     a_diapazon = (ci_lower, ci_upper),
                                     a_otklonenie = \<bar>deviation_pct\<bar>,
                                     a_prioritet = (if \<bar>deviation_pct\<bar> > 30
                                                    then Vysokij else Srednij) \<rparr>
                         else None)"

definition identify_anomalies :: "dataframe \<Rightarrow> baseline_row list \<Rightarrow> error + anomaly list" where
  "identify_anomalies df baseline_df =
     (if rows df \<noteq> [] \<and> \<not> has_klyuch df then Inl KeyError
      else Inr (List.map_filter (anomaly_of_row baseline_df) (rows df)))"

section \<open>Anomaly detector, parametric z-band\<close>

text \<open>
  \<^verbatim>\<open>preprocessing_timeseries.py\<close>. The observation of a row is the sum of its turnover
  cells, missing cells skipped. Only the columns derived from the turnover are modelled;
  the demographic, cashback and activation columns are carried along by the source and
  take no part in the band. A division of floats by zero does not raise: its result is
  not a number of the model, and is \<open>None\<close>.
\<close>

definition fdiv :: "real \<Rightarrow> real \<Rightarrow> cell" where
  "fdiv x y = (if y = 0 then None else Some (x / y))"

definition obshchij_oborot :: "raw_row \<Rightarrow> real" where
  "obshchij_oborot row = sum_list (known (oboroty row))"

text \<open>
  The sample standard deviation of a pandas group (\<^verbatim>\<open>ddof=1\<close>), undefined for a
  group of one row.
\<close>

definition sample_std :: "real list \<Rightarrow> cell" where
  "sample_std xs =
     (if length xs < 2 then None
      else Some (sqrt (sum_list (map (\<lambda>x. (x - mean xs)\<^sup>2) xs) / real (length xs - 1))))"

definition fillna :: "real \<Rightarrow> cell \<Rightarrow> real" where
  "fillna d c = (case c of None \<Rightarrow> d | Some x \<Rightarrow> x)"

text \<open>\<^verbatim>\<open>stats.norm.ppf(0.95)\<close>, as the double that scipy returns.\<close>

definition z_score :: real where
  "z_score = 16448536269514722 / 10 ^ 16"

record client_stat =
  s_klyuch :: nat
  s_oborot_mean :: real
  s_oborot_std :: real
  s_oborot_min :: real
  s_oborot_max :: real
  s_periodov :: nat
  s_ci_lower :: real
  s_ci_upper :: real
  s_cv :: cell

text \<open>One group of \<^verbatim>\<open>groupby\<close>: the statistics of the rows of one client (lines 59 to 88).\<close>

definition client_statistics :: "nat \<Rightarrow> raw_row list \<Rightarrow> client_stat" where
  "client_statistics client_id rs =
     (let obs = map obshchij_oborot (filter (\<lambda>r. klyuch_klienta r = client_id) rs);
          oborot_mean = mean obs;
          oborot_std = fillna 0 (sample_std obs);
          ci_lower = oborot_mean - z_score * oborot_std;
          ci_upper = oborot_mean + z_score * oborot_std
      in \<lparr> s_klyuch = client_id,
           s_oborot_mean = oborot_mean,
           s_oborot_std = oborot_std,
           s_oborot_min = Min (set obs),
           s_oborot_max = Max (set obs),
           s_periodov = length obs,
           s_ci_lower = max 0 ci_lower,
           s_ci_upper = ci_upper,
           s_cv = fdiv oborot_std (oborot_mean + 1) \<rparr>)"

text \<open>\<^verbatim>\<open>groupby\<close> orders the groups by key.\<close>

definition calculate_client_statistics :: "raw_row list \<Rightarrow> client_stat list" where
  "calculate_client_statistics rs =
     map (\<lambda>c. client_statistics c rs) (sort (remdups (map klyuch_klienta rs)))"

record ts_row =
  t_klyuch :: nat
  t_obshchij_oborot :: real
  t_ci_lower :: real
  t_ci_upper :: real
  t_oborot_mean :: real
  t_cv :: cell
  t_is_anomaly :: nat
  t_deviation_pct :: cell

text \<open>A row of the extract joined with the statistics of its client (lines 120 to 135).\<close>

definition anomaly_metrics_row :: "raw_row \<Rightarrow> client_stat \<Rightarrow> ts_row" where
  "anomaly_metrics_row row st =
     \<lparr> t_klyuch = klyuch_klienta row,
       t_obshchij_oborot = obshchij_oborot row,
       t_ci_lower = s_ci_lower st,
       t_ci_upper = s_ci_upper st,
       t_oborot_mean = s_oborot_mean st,
       t_cv = s_cv st,
       t_is_anomaly = (if obshchij_oborot row < s_ci_lower st
                          \<or> obshchij_oborot row > s_ci_upper st then 1 else 0),
       t_deviation_pct =
         map_option (\<lambda>d. d * 100)
           (fdiv (obshchij_oborot row - s_oborot_mean st) (s_oborot_mean st + 1)) \<rparr>"

text \<open>The inner join keeps the order of the rows of the extract.\<close>

definition calculate_anomaly_metrics :: "raw_row list \<Rightarrow> client_stat list \<Rightarrow> ts_row list" where
  "calculate_anomaly_metrics rs client_stats =
     concat (map (\<lambda>row. map (anomaly_metrics_row row)
                          (filter (\<lambda>st. s_klyuch st = klyuch_klienta row) client_stats)) rs)"

section \<open>Cohort segmenter\<close>

record seg_row = baseline_row +
  kogorta :: nat

text \<open>
  \<^verbatim>\<open>StandardScaler\<close> and \<^verbatim>\<open>AgglomerativeClustering\<close> are scikit-learn's and no code
  of this repository: the segmenter takes them as parameters. \<open>fit_transform\<close> maps the
  feature rows to scaled rows, whose entries may be undefined; \<open>fit_predict\<close> takes the
  number of clusters and the rows and returns one label for each row. Both may raise.
\<close>

record sklearn =
  fit_transform :: "real list list \<Rightarrow> error + cell list list"
  fit_predict :: "nat \<Rightarrow> real list list \<Rightarrow> error + nat list"

text \<open>
  The four features of line 167. A baseline row holds no undefined feature, so the
  imputations of lines 170 to 175 change nothing.
\<close>

definition features_of :: "'a baseline_row_scheme \<Rightarrow> real list" where
  "features_of b = [b_oborot_mean b, b_cv b, b_koncentraciya b, real (b_tranzakcii_kol b)]"

text \<open>
  Lines 178 to 195. Rows with an undefined scaled feature are dropped from the features
  and from the table alike; a table and an array of different lengths cannot be
  combined, which raises.
\<close>

definition segment_clients_hierarchical ::
    "sklearn \<Rightarrow> baseline_row list \<Rightarrow> nat \<Rightarrow> error + seg_row list" where
  "segment_clients_hierarchical lib baseline_df max_cohorts =
     (case fit_transform lib (map features_of baseline_df) of
        Inl e \<Rightarrow> Inl e
      | Inr features_scaled \<Rightarrow>
          if length features_scaled \<noteq> length baseline_df then Inl ValueError
          else let valid = filter (\<lambda>fb. None \<notin> set (fst fb)) (zip features_scaled baseline_df)
               in case fit_predict lib max_cohorts (map (\<lambda>fb. known (fst fb)) valid) of
                    Inl e \<Rightarrow> Inl e
                  | Inr labels \<Rightarrow>
                      if length labels \<noteq> length valid then Inl ValueError
                      else Inr (map (\<lambda>vl. baseline_row.extend (snd (fst vl))
                                             (seg_row.fields (snd vl)))
                                  (zip valid labels)))"

section \<open>Cohort profile aggregator\<close>

text \<open>\<^verbatim>\<open>round(2)\<close>: to the nearest hundredth, a tie to the even one.\<close>

definition rint :: "real \<Rightarrow> int" where
  "rint x =
     (let f = \<lfloor>x\<rfloor>; d = x - of_int f
      in if d < 1 / 2 then f else if d > 1 / 2 then f + 1
         else if even f then f else f + 1)"

definition round2 :: "real \<Rightarrow> real" where
  "round2 x = of_int (rint (x * 100)) / 100"

record cohort_profile =
  p_kogorta :: nat
  razmer_kogorty :: nat
  srednij_oborot :: real
  mediana_oborota :: real
  volatilnost_oborota :: cell
  srednij_cv :: real
  srednyaya_koncentraciya :: real
  srednie_tranzakcii :: real
  srednij_vozrast :: cell

definition cohort_profile_of :: "nat \<Rightarrow> seg_row list \<Rightarrow> cohort_profile" where
  "cohort_profile_of k seg =
     (let g = filter (\<lambda>b. kogorta b = k) seg;
          ages = known (map b_vozrast g)
      in \<lparr> p_kogorta = k,
           razmer_kogorty = length g,
           srednij_oborot = round2 (mean (map b_oborot_mean g)),
           mediana_oborota = round2 (median (map b_oborot_mean g)),
           volatilnost_oborota = map_option round2 (sample_std (map b_oborot_mean g)),
           srednij_cv = round2 (mean (map b_cv g)),
           srednyaya_koncentraciya = round2 (mean (map b_koncentraciya g)),
           srednie_tranzakcii = round2 (mean (map (\<lambda>b. real (b_tranzakcii_kol b)) g)),
           srednij_vozrast = (if ages = [] then None else Some (round2 (mean ages))) \<rparr>)"

text \<open>One row for each cohort id that occurs, in the order of the ids.\<close>

definition calculate_cohort_profiles :: "seg_row list \<Rightarrow> cohort_profile list" where
  "calculate_cohort_profiles seg =
     map (\<lambda>k. cohort_profile_of k seg) (sort (remdups (map kogorta seg)))"

section \<open>Output writer and pipeline run\<close>









section \<open>Example extracts\<close>

text \<open>A row with one turnover column, and a frame with all its columns.\<close>

definition one_col :: "nat \<Rightarrow> real \<Rightarrow> raw_row" where
  "one_col c x = \<lparr> klyuch_klienta = c, oboroty = [Some x], vozrast = Some 30 \<rparr>"

definition frame :: "raw_row list \<Rightarrow> dataframe" where
  "frame rs = \<lparr> has_klyuch = True, has_vozrast = True, rows = rs \<rparr>"

text \<open>One client with the same turnover in two periods, and its baseline row.\<close>

definition ex_equal :: dataframe where
  "ex_equal = frame [one_col 1 100, one_col 1 100]"

definition row_equal :: baseline_row where
  "row_equal = \<lparr> b_klyuch = 1, b_oborot_mean = 100, b_oborot_std = 0, b_cv = 0,
      b_ci_lower = 100, b_ci_upper = 100, b_tranzakcii_kol = 2, b_koncentraciya = 1,
      b_vozrast = Some 30 \<rparr>"

text \<open>
  The bracketing of the mean by the band of a baseline row, and one client with one
  large turnover among seven, with its baseline row.
\<close>

definition band_brackets_mean :: "baseline_row \<Rightarrow> bool" where
  "band_brackets_mean b = (b_ci_lower b \<le> b_oborot_mean b \<and> b_oborot_mean b \<le> b_ci_upper b)"

definition ex_skewed :: dataframe where
  "ex_skewed = frame (map (one_col 1) [100, 100, 1000, 100, 100, 100, 100])"

definition row_skewed :: baseline_row where
  "row_skewed = \<lparr> b_klyuch = 1, b_oborot_mean = 1600 / 7,
      b_oborot_std = std [100, 100, 1000, 100, 100, 100, 100], b_cv = 0,
      b_ci_lower = 100, b_ci_upper = 190, b_tranzakcii_kol = 7, b_koncentraciya = 3 / 4,
      b_vozrast = Some 30 \<rparr>"

text \<open>One client with a single turnover column over four periods, and its baseline row.\<close>

definition ex_one_category :: dataframe where
  "ex_one_category = frame (map (one_col 1) [100, 100, 100, 100])"

definition row_one_category :: baseline_row where
  "row_one_category = \<lparr> b_klyuch = 1, b_oborot_mean = 100, b_oborot_std = 0, b_cv = 0,
      b_ci_lower = 100, b_ci_upper = 100, b_tranzakcii_kol = 4, b_koncentraciya = 3 / 4,
      b_vozrast = Some 30 \<rparr>"

text \<open>
  A client without any positive turnover, alone in its extract and next to a client
  with two periods of turnover.
\<close>

definition ex_idle :: dataframe where
  "ex_idle = frame [one_col 1 0]"

definition ex_mixed :: dataframe where
  "ex_mixed = frame [one_col 1 100, one_col 2 0, one_col 1 100]"

text \<open>
  Extracts of one client with one period: a turnover of 100 with its row of the z-band
  table, and a negative turnover.
\<close>

definition rs_single :: "raw_row list" where
  "rs_single = [one_col 1 100]"

definition ts_single :: ts_row where
  "ts_single = \<lparr> t_klyuch = 1, t_obshchij_oborot = 100, t_ci_lower = 100, t_ci_upper = 100,
      t_oborot_mean = 100, t_cv = Some 0, t_is_anomaly = 0, t_deviation_pct = Some 0 \<rparr>"

definition rs_refund :: "raw_row list" where
  "rs_refund = [one_col 1 (- 5)]"

text \<open>
  One client with the same negative turnover in two periods; one client with the
  turnovers 0 and 2, and the row of its first period in the z-band table.
\<close>

definition rs_refunds :: "raw_row list" where
  "rs_refunds = [one_col 1 (- 4), one_col 1 (- 4)]"

definition rs_pair :: "raw_row list" where
  "rs_pair = [one_col 1 0, one_col 1 2]"

definition ts_pair :: ts_row where
  "ts_pair = anomaly_metrics_row (one_col 1 0) (client_statistics 1 rs_pair)"

text \<open>
  One client with one small turnover among seven, its baseline row and the anomaly of
  the small turnover; one client with one large turnover among five and one with a
  turnover of 0 among five, with the rows of those periods in the z-band table.
\<close>

definition ex_low :: dataframe where
  "ex_low = frame (map (one_col 1) [100, 100, 100, 10, 100, 100, 100])"

definition row_low :: baseline_row where
  "row_low = \<lparr> b_klyuch = 1, b_oborot_mean = 610 / 7,
      b_oborot_std = std [100, 100, 100, 10, 100, 100, 100], b_cv = 0,
      b_ci_lower = 91, b_ci_upper = 100, b_tranzakcii_kol = 7, b_koncentraciya = 30 / 61,
      b_vozrast = Some 30 \<rparr>"

definition anomaly_low :: anomaly where
  "anomaly_low = \<lparr> a_klyuch = 1, a_tip = Nizkie_rashody, a_tekushchij_oborot = 10,
      a_diapazon = (91, 100), a_otklonenie = 54000 / 617, a_prioritet = Vysokij \<rparr>"

definition rs_spike :: "raw_row list" where
  "rs_spike = map (one_col 1) [0, 0, 5, 0, 0]"

definition ts_spike :: ts_row where
  "ts_spike = anomaly_metrics_row (one_col 1 5) (client_statistics 1 rs_spike)"

definition rs_dip :: "raw_row list" where
  "rs_dip = map (one_col 1) [5, 5, 0, 5, 5]"

definition ts_dip :: ts_row where
  "ts_dip = anomaly_metrics_row (one_col 1 0) (client_statistics 1 rs_dip)"

text \<open>
  A stand-in for the two scikit-learn calls: the scaler returns the features as they are,
  and the clustering puts row \<open>i\<close> into the cluster \<open>min i (K - 1)\<close>; like the library, it
  refuses an empty array and more clusters than rows. Three baseline rows and their
  segmentation into two cohorts by the stand-in.
\<close>

definition stub :: sklearn where
  "stub = \<lparr> fit_transform = (\<lambda>X. if X = [] then Inl ValueError else Inr (map (map Some) X)),
            fit_predict = (\<lambda>K X. if K = 0 \<or> length X < K then Inl ValueError
                                  else Inr (map (\<lambda>i. min i (K - 1)) [0..<length X])) \<rparr>"

definition bs_three :: "baseline_row list" where
  "bs_three = [row_equal, row_skewed, row_low]"

definition seg_three :: "seg_row list" where
  "seg_three = [baseline_row.extend row_equal (seg_row.fields 0),
                baseline_row.extend row_skewed (seg_row.fields 1),
                baseline_row.extend row_low (seg_row.fields 1)]"





section \<open>Properties of the array operations\<close>

lemma lerp_at_bounds:
  assumes "sorted s" "s \<noteq> []" "0 \<le> v" "v \<le> real (length s - 1)"
  shows "s ! nat \<lfloor>v\<rfloor> \<le> lerp_at s v"
    and "lerp_at s v \<le> s ! min (nat \<lfloor>v\<rfloor> + 1) (length s - 1)"
proof -
  let ?lo = "nat \<lfloor>v\<rfloor>"
  let ?hi = "min (?lo + 1) (length s - 1)"
  have lo_le: "real ?lo \<le> v" using assms(3) by simp
  have v_lt: "v < real ?lo + 1" using assms(3) by linarith
  have "?lo \<le> length s - 1" using assms(4) lo_le
    by (metis le_floor_iff nat_le_iff of_int_of_nat_eq floor_of_nat floor_mono nat_int)
  then have lo_hi: "?lo \<le> ?hi" by simp
  have hi_lt: "?hi < length s" using assms(2) by (cases s) auto
  have ab: "s ! ?lo \<le> s ! ?hi"
    using assms(1) lo_hi hi_lt by (simp add: sorted_nth_mono)
  have g0: "0 \<le> v - real ?lo" using lo_le by simp
  have g1: "v - real ?lo \<le> 1" using v_lt by simp
  have eq: "lerp_at s v = s ! ?lo + (s ! ?hi - s ! ?lo) * (v - real ?lo)"
    by (simp add: lerp_at_def Let_def)
  have "0 \<le> (s ! ?hi - s ! ?lo) * (v - real ?lo)"
    using ab g0 by simp
  then show "s ! ?lo \<le> lerp_at s v" using eq by linarith
  have "(s ! ?hi - s ! ?lo) * (v - real ?lo) \<le> (s ! ?hi - s ! ?lo) * 1"
    using ab g1 by (intro mult_left_mono) auto
  then have "(s ! ?hi - s ! ?lo) * (v - real ?lo) \<le> s ! ?hi - s ! ?lo" by simp
  then show "lerp_at s v \<le> s ! ?hi" using eq by linarith
qed

lemma lerp_at_mono:
  assumes "sorted s" "s \<noteq> []" "0 \<le> v1" "v1 \<le> v2" "v2 \<le> real (length s - 1)"
  shows "lerp_at s v1 \<le> lerp_at s v2"
proof -
  let ?l1 = "nat \<lfloor>v1\<rfloor>" and ?l2 = "nat \<lfloor>v2\<rfloor>"
  let ?h1 = "min (?l1 + 1) (length s - 1)"
  have l12: "?l1 \<le> ?l2" using assms(4) by (simp add: floor_mono nat_mono)
  have v20: "0 \<le> v2" using assms by linarith
  have v1n: "v1 \<le> real (length s - 1)" using assms by linarith
  have l2n: "?l2 \<le> length s - 1" using assms(5) v20
    by (metis le_floor_iff nat_le_iff of_int_of_nat_eq floor_of_nat floor_mono nat_int)
  show ?thesis
  proof (cases "?l1 = ?l2")
    case True
    let ?h = "min (?l1 + 1) (length s - 1)"
    have hi_lt: "?h < length s" using assms(2) by (cases s) auto
    have "?l1 \<le> ?h" using l2n True by simp
    then have ab: "s ! ?l1 \<le> s ! ?h" using assms(1) hi_lt by (simp add: sorted_nth_mono)
    have "(s ! ?h - s ! ?l1) * (v1 - real ?l1) \<le> (s ! ?h - s ! ?l1) * (v2 - real ?l1)"
      using ab assms(4) by (intro mult_left_mono) auto
    then show ?thesis using True by (simp add: lerp_at_def Let_def)
  next
    case False
    then have "?l1 + 1 \<le> ?l2" using l12 by simp
    then have h1l2: "?h1 \<le> ?l2" by simp
    have "?l2 < length s" using l2n assms(2) by (cases s) auto
    then have "s ! ?h1 \<le> s ! ?l2" using assms(1) h1l2 by (simp add: sorted_nth_mono)
    moreover have "lerp_at s v1 \<le> s ! ?h1"
      using lerp_at_bounds(2)[OF assms(1,2,3) v1n] .
    moreover have "s ! ?l2 \<le> lerp_at s v2"
      using lerp_at_bounds(1)[OF assms(1,2) v20 assms(5)] .
    ultimately show ?thesis by linarith
  qed
qed

lemma percentile_mono:
  assumes "a \<noteq> []" "0 \<le> p" "p \<le> q" "q \<le> 100"
  shows "percentile a p \<le> percentile a q"
proof -
  have n: "length (sort a) = length a" by simp
  have s: "sort a \<noteq> []" using assms(1) by (metis length_0_conv n)
  have 1: "0 \<le> p / 100 * real (length a - 1)" using assms by simp
  have 2: "p / 100 * real (length a - 1) \<le> q / 100 * real (length a - 1)"
    using assms by (intro mult_right_mono) auto
  have "q / 100 * real (length a - 1) \<le> 1 * real (length a - 1)"
    using assms by (intro mult_right_mono) auto
  then have 3: "q / 100 * real (length a - 1) \<le> real (length (sort a) - 1)" by simp
  show ?thesis unfolding percentile_def
    using lerp_at_mono[OF sorted_sort s 1 2 3] .
qed

lemma median_eq_percentile:
  assumes "a \<noteq> []"
  shows "median a = percentile a 50"
proof (cases "odd (length a)")
  case True
  then obtain k where k: "length a = 2 * k + 1" by (auto elim: oddE)
  have v: "(50::real) / 100 * real (length a - 1) = real k" using k by simp
  have "percentile a 50 = sort a ! k"
    unfolding percentile_def v by (simp add: lerp_at_def Let_def)
  moreover have "median a = sort a ! k"
    using k by (simp add: median_def Let_def)
  ultimately show ?thesis by simp
next
  case False
  then obtain k where k: "length a = 2 * k" by (auto elim: evenE)
  with assms have k1: "1 \<le> k" by (cases k) auto
  have v: "(50::real) / 100 * real (length a - 1) = real (k - 1) + 1 / 2"
    using k k1 by (simp add: of_nat_diff field_simps)
  have fl: "\<lfloor>real (k - 1) + 1 / 2\<rfloor> = int (k - 1)" by linarith
  have hi: "min (k - 1 + 1) (length (sort a) - 1) = k" using k k1 by simp
  have "percentile a 50 = sort a ! (k - 1) + (sort a ! k - sort a ! (k - 1)) * (1 / 2)"
    unfolding percentile_def v lerp_at_def Let_def fl using hi by simp
  moreover have "median a = (sort a ! (k - 1) + sort a ! k) / 2"
    using k k1 by (simp add: median_def Let_def)
  ultimately show ?thesis by (simp add: field_simps)
qed

lemma floor_index_le:
  assumes "0 \<le> v" "v \<le> real n"
  shows "nat \<lfloor>v\<rfloor> \<le> n"
proof -
  have "\<lfloor>v\<rfloor> \<le> \<lfloor>real n\<rfloor>" using assms(2) by (rule floor_mono)
  then show ?thesis by simp
qed

lemma percentile_between:
  assumes "a \<noteq> []" "0 \<le> q" "q \<le> 100"
  shows "\<exists>x\<in>set a. x \<le> percentile a q" and "\<exists>y\<in>set a. percentile a q \<le> y"
proof -
  let ?s = "sort a" and ?v = "q / 100 * real (length a - 1)"
  have s: "?s \<noteq> []" using assms(1) by (metis length_0_conv length_sort)
  have v0: "0 \<le> ?v" using assms by simp
  have "?v \<le> 1 * real (length a - 1)" using assms by (intro mult_right_mono) auto
  then have vn: "?v \<le> real (length ?s - 1)" by simp
  have lo: "nat \<lfloor>?v\<rfloor> < length ?s"
    using floor_index_le[OF v0 vn] s by (cases "sort a") auto
  have hi: "min (nat \<lfloor>?v\<rfloor> + 1) (length ?s - 1) < length ?s"
    using s by (cases "sort a") auto
  have "?s ! nat \<lfloor>?v\<rfloor> \<in> set a" using nth_mem[OF lo] by simp
  moreover have "?s ! nat \<lfloor>?v\<rfloor> \<le> percentile a q"
    unfolding percentile_def using lerp_at_bounds(1)[OF sorted_sort s v0 vn] .
  ultimately show "\<exists>x\<in>set a. x \<le> percentile a q" by blast
  have "?s ! min (nat \<lfloor>?v\<rfloor> + 1) (length ?s - 1) \<in> set a" using nth_mem[OF hi] by simp
  moreover have "percentile a q \<le> ?s ! min (nat \<lfloor>?v\<rfloor> + 1) (length ?s - 1)"
    unfolding percentile_def using lerp_at_bounds(2)[OF sorted_sort s v0 vn] .
  ultimately show "\<exists>y\<in>set a. percentile a q \<le> y" by blast
qed

lemma percentile_const:
  assumes "a \<noteq> []" "0 \<le> q" "q \<le> 100" "\<forall>x\<in>set a. x = c"
  shows "percentile a q = c"
proof -
  obtain x where x: "x \<in> set a" "x \<le> percentile a q"
    using percentile_between(1)[OF assms(1-3)] by blast
  obtain y where y: "y \<in> set a" "percentile a q \<le> y"
    using percentile_between(2)[OF assms(1-3)] by blast
  have "x = c" "y = c" using assms(4) x(1) y(1) by blast+
  then show ?thesis using x(2) y(2) by linarith
qed

lemma median_pos:
  assumes "a \<noteq> []" "\<forall>x\<in>set a. 0 < x"
  shows "0 < median a"
proof -
  obtain x where "x \<in> set a" "x \<le> percentile a 50"
    using percentile_between(1)[of a 50] assms(1) by auto
  then show ?thesis using assms median_eq_percentile[OF assms(1)] by force
qed

section \<open>Rows of the baseline table\<close>

lemma positive_pos: "x \<in> set (positive cs) \<Longrightarrow> 0 < x"
  by (simp add: positive_def)

lemma client_oborots_pos: "x \<in> set (client_oborots c rs) \<Longrightarrow> 0 < x"
  unfolding client_oborots_def by (rule positive_pos)

lemma client_baseline_Some:
  assumes "client_baseline c rs = Some b"
  shows "client_oborots c rs \<noteq> []"
    and "b_klyuch b = c"
    and "b_oborot_mean b = mean (client_oborots c rs)"
    and "b_cv b = cv_of (client_oborots c rs)"
    and "b_ci_lower b = percentile (client_oborots c rs) 15"
    and "b_ci_upper b = percentile (client_oborots c rs) 85"
    and "b_koncentraciya b = concentration_of (client_oborots c rs)"
    and "b_tranzakcii_kol b = length (client_oborots c rs)"
  using assms by (auto simp: client_baseline_def Let_def split: if_splits)

lemma baseline_row_emitted:
  assumes "calculate_client_baseline df = Inr bs" "b \<in> set bs"
  shows "client_baseline (b_klyuch b) (rows df) = Some b"
proof -
  let ?f = "\<lambda>c. client_baseline c (rows df)"
  have "bs = dropna (List.map_filter ?f (unique (map klyuch_klienta (rows df))))"
    using assms(1) by (simp add: calculate_client_baseline_def Let_def split: if_splits)
  with assms(2) have "b \<in> set (List.map_filter ?f (unique (map klyuch_klienta (rows df))))"
    by (simp add: dropna_def)
  then obtain c where "?f c = Some b"
    by (auto simp: List.map_filter_def)
  moreover from this have "b_klyuch b = c" by (rule client_baseline_Some(2))
  ultimately show ?thesis by simp
qed

lemma cv_of_nonneg:
  assumes "xs \<noteq> []"
  shows "0 \<le> cv_of xs"
proof -
  have "percentile xs 35 \<le> percentile xs 65"
    using percentile_mono[OF assms, of 35 65] by simp
  then show ?thesis by (simp add: cv_of_def Let_def)
qed

lemma cv_of_const:
  assumes "xs \<noteq> []" "\<forall>x\<in>set xs. \<forall>y\<in>set xs. x = y"
  shows "cv_of xs = 0"
proof -
  obtain c where c: "c \<in> set xs" using assms(1) by (cases xs) auto
  then have all: "\<forall>x\<in>set xs. x = c" using assms(2) by blast
  have "percentile xs 65 = c" "percentile xs 35 = c"
    using percentile_const[OF assms(1) _ _ all] by simp_all
  then show ?thesis by (simp add: cv_of_def Let_def)
qed

lemma ex_equal_oborots: "client_oborots (Suc 0) (rows ex_equal) = [100, 100]"
  by (simp add: client_oborots_def ex_equal_def frame_def one_col_def positive_def)

lemma ex_equal_baseline: "calculate_client_baseline ex_equal = Inr [row_equal]"
  by (simp add: calculate_client_baseline_def List.map_filter_def unique_def
      client_baseline_def client_oborots_def positive_def dropna_def Let_def mean_def
      std_def cv_of_def percentile_def lerp_at_def median_def concentration_of_def
      ex_equal_def frame_def one_col_def row_equal_def)

section \<open>Dispersion ratio\<close>

text \<open>
  C3: for every row of the baseline table, the dispersion ratio is the difference of the
  65th and the 35th percentile of the client's positive turnovers over their median, and
  0 when the median is not positive; it is never negative, and it is 0 when all the
  positive turnovers of the client are equal.
\<close>

theorem dispersion_ratio:
  assumes "calculate_client_baseline df = Inr bs" and "b \<in> set bs"
    and "xs = client_oborots (b_klyuch b) (rows df)"
  shows "b_cv b = (if median xs > 0 then (percentile xs 65 - percentile xs 35) / median xs else 0)
       \<and> 0 \<le> b_cv b
       \<and> ((\<forall>x\<in>set xs. \<forall>y\<in>set xs. x = y) \<longrightarrow> b_cv b = 0)"
proof -
  have some: "client_baseline (b_klyuch b) (rows df) = Some b"
    using assms(1,2) by (rule baseline_row_emitted)
  have ne: "xs \<noteq> []" using client_baseline_Some(1)[OF some] assms(3) by simp
  have cv: "b_cv b = cv_of xs" using client_baseline_Some(4)[OF some] assms(3) by simp
  have "cv_of xs = (if median xs > 0 then (percentile xs 65 - percentile xs 35) / median xs else 0)"
    by (simp add: cv_of_def Let_def)
  moreover have "0 \<le> cv_of xs" using ne by (rule cv_of_nonneg)
  moreover have "(\<forall>x\<in>set xs. \<forall>y\<in>set xs. x = y) \<longrightarrow> cv_of xs = 0"
    using cv_of_const[OF ne] by blast
  ultimately show ?thesis using cv by simp
qed

theorem dispersion_ratio_witness:
  "calculate_client_baseline ex_equal = Inr [row_equal]
   \<and> row_equal \<in> set [row_equal]
   \<and> client_oborots (b_klyuch row_equal) (rows ex_equal) = [100, 100]
   \<and> set [100, 100 :: real] = {100}
   \<and> 0 < median [100, 100]
   \<and> 0 \<le> b_cv row_equal
   \<and> b_cv row_equal = (percentile [100, 100] 65 - percentile [100, 100] 35) / median [100, 100]
   \<and> b_cv row_equal = 0"
proof -
  have k: "b_klyuch row_equal = Suc 0" by (simp add: row_equal_def)
  have o: "[100, 100] = client_oborots (b_klyuch row_equal) (rows ex_equal)"
    unfolding k by (simp add: ex_equal_oborots)
  have m: "median [100, 100] = 100" by (simp add: median_def)
  have "b_cv row_equal =
          (if median [100, 100] > 0
           then (percentile [100, 100] 65 - percentile [100, 100] 35) / median [100, 100] else 0)
       \<and> 0 \<le> b_cv row_equal
       \<and> ((\<forall>x\<in>set [100, 100 :: real]. \<forall>y\<in>set [100, 100]. x = y) \<longrightarrow> b_cv row_equal = 0)"
    using dispersion_ratio[OF ex_equal_baseline _ o] by simp
  then show ?thesis
    using m ex_equal_baseline o[symmetric] by simp
qed

section \<open>Band of the baseline\<close>

lemma ex_skewed_oborots:
  "client_oborots (Suc 0) (rows ex_skewed) = [100, 100, 1000, 100, 100, 100, 100]"
  by (simp add: client_oborots_def ex_skewed_def frame_def one_col_def positive_def)

lemma ex_skewed_baseline: "calculate_client_baseline ex_skewed = Inr [row_skewed]"
  by (simp add: calculate_client_baseline_def List.map_filter_def unique_def
      client_baseline_def client_oborots_def positive_def dropna_def Let_def mean_def
      cv_of_def percentile_def lerp_at_def median_def concentration_of_def
      ex_skewed_def frame_def one_col_def row_skewed_def)

text \<open>
  The band of a baseline row need not hold the mean: seven turnovers, six of 100 and one
  of 1000, have the mean 1600/7 above the 85th percentile 190.
\<close>

theorem band_brackets_mean_counterexample:
  "calculate_client_baseline ex_skewed = Inr [row_skewed]
   \<and> b_oborot_mean row_skewed = 1600 / 7
   \<and> b_ci_upper row_skewed = 190
   \<and> \<not> band_brackets_mean row_skewed"
  using ex_skewed_baseline by (simp add: band_brackets_mean_def row_skewed_def)

text \<open>
  C1, amended: for every row of the baseline table, the lower bound is the 15th and the
  upper bound the 85th percentile of the client's positive turnovers, and the two bracket
  their median.
\<close>

theorem band_brackets_median:
  assumes "calculate_client_baseline df = Inr bs" and "b \<in> set bs"
    and "xs = client_oborots (b_klyuch b) (rows df)"
  shows "b_ci_lower b = percentile xs 15 \<and> b_ci_upper b = percentile xs 85
       \<and> b_ci_lower b \<le> median xs \<and> median xs \<le> b_ci_upper b"
proof -
  have some: "client_baseline (b_klyuch b) (rows df) = Some b"
    using assms(1,2) by (rule baseline_row_emitted)
  have ne: "xs \<noteq> []" using client_baseline_Some(1)[OF some] assms(3) by simp
  have lo: "b_ci_lower b = percentile xs 15"
    using client_baseline_Some(5)[OF some] assms(3) by simp
  have hi: "b_ci_upper b = percentile xs 85"
    using client_baseline_Some(6)[OF some] assms(3) by simp
  have m: "median xs = percentile xs 50" using ne by (rule median_eq_percentile)
  have "percentile xs 15 \<le> percentile xs 50" using percentile_mono[OF ne, of 15 50] by simp
  moreover have "percentile xs 50 \<le> percentile xs 85"
    using percentile_mono[OF ne, of 50 85] by simp
  ultimately show ?thesis using lo hi m by simp
qed

theorem band_brackets_median_witness:
  "calculate_client_baseline ex_skewed = Inr [row_skewed]
   \<and> row_skewed \<in> set [row_skewed]
   \<and> client_oborots (b_klyuch row_skewed) (rows ex_skewed) = [100, 100, 1000, 100, 100, 100, 100]
   \<and> b_ci_lower row_skewed = 100
   \<and> median [100, 100, 1000, 100, 100, 100, 100] = 100
   \<and> b_ci_upper row_skewed = 190
   \<and> b_ci_lower row_skewed \<le> median [100, 100, 1000, 100, 100, 100, 100]
   \<and> median [100, 100, 1000, 100, 100, 100, 100] \<le> b_ci_upper row_skewed"
proof -
  have k: "b_klyuch row_skewed = Suc 0" by (simp add: row_skewed_def)
  have o: "[100, 100, 1000, 100, 100, 100, 100] = client_oborots (b_klyuch row_skewed) (rows ex_skewed)"
    unfolding k by (simp add: ex_skewed_oborots)
  have m: "median [100, 100, 1000, 100, 100, 100, 100] = 100" by (simp add: median_def)
  have "b_ci_lower row_skewed \<le> median [100, 100, 1000, 100, 100, 100, 100]
      \<and> median [100, 100, 1000, 100, 100, 100, 100] \<le> b_ci_upper row_skewed"
    using band_brackets_median[OF ex_skewed_baseline _ o] by simp
  then show ?thesis
    using m ex_skewed_baseline o[symmetric] by (simp add: row_skewed_def)
qed

section \<open>Spending concentration\<close>

lemma sum_list_insort: "sum_list (insort x xs) = x + sum_list (xs :: real list)"
  by (induction xs) auto

lemma sum_list_sort: "sum_list (sort xs) = sum_list (xs :: real list)"
  by (induction xs) (auto simp: sum_list_insort)

lemma sum_list_pos:
  assumes "xs \<noteq> []" "\<forall>x\<in>set xs. 0 < (x :: real)"
  shows "0 < sum_list xs"
  using assms
proof (induction xs)
  case Nil
  then show ?case by simp
next
  case (Cons x xs)
  have "0 \<le> sum_list xs" using Cons.prems(2) by (intro sum_list_nonneg) auto
  moreover have "0 < x" using Cons.prems(2) by simp
  ultimately show ?case by simp
qed

lemma sum_list_drop_le:
  assumes "\<forall>x\<in>set s. 0 \<le> (x :: real)"
  shows "0 \<le> sum_list (drop k s)" and "sum_list (drop k s) \<le> sum_list s"
proof -
  have d: "\<forall>x\<in>set (drop k s). 0 \<le> x" using assms by (meson in_set_dropD)
  have t: "\<forall>x\<in>set (take k s). 0 \<le> x" using assms by (meson in_set_takeD)
  show "0 \<le> sum_list (drop k s)" using d by (intro sum_list_nonneg) auto
  have "0 \<le> sum_list (take k s)" using t by (intro sum_list_nonneg) auto
  moreover have "sum_list s = sum_list (take k s) + sum_list (drop k s)"
    by (metis append_take_drop_id sum_list_append)
  ultimately show "sum_list (drop k s) \<le> sum_list s" by simp
qed

lemma concentration_bounds:
  assumes "xs \<noteq> []" "\<forall>x\<in>set xs. 0 < x"
  shows "0 \<le> concentration_of xs" and "concentration_of xs \<le> 1"
proof -
  have S: "0 < sum_list xs" using assms by (rule sum_list_pos)
  have nn: "\<forall>x\<in>set (sort xs). 0 \<le> x" using assms(2) by (simp add: less_imp_le)
  let ?T = "sum_list (drop (length xs - 3) (sort xs))"
  have T0: "0 \<le> ?T" using sum_list_drop_le(1)[OF nn] .
  have "?T \<le> sum_list (sort xs)" using sum_list_drop_le(2)[OF nn] .
  then have TS: "?T \<le> sum_list xs" by (simp add: sum_list_sort)
  show "0 \<le> concentration_of xs"
    using S T0 by (simp add: concentration_of_def)
  show "concentration_of xs \<le> 1"
    using S TS by (simp add: concentration_of_def)
qed

lemma concentration_few:
  assumes "xs \<noteq> []" "\<forall>x\<in>set xs. 0 < x" "length xs \<le> 3"
  shows "concentration_of xs = 1"
proof -
  have S: "0 < sum_list xs" using assms(1,2) by (rule sum_list_pos)
  show ?thesis
  proof (cases "length xs = 3")
    case True
    then show ?thesis using S by (simp add: concentration_of_def sum_list_sort)
  next
    case False
    then have "length xs < 3" using assms(3) by simp
    then show ?thesis using S assms(1) by (simp add: concentration_of_def)
  qed
qed

lemma baseline_concentration_range:
  assumes "calculate_client_baseline df = Inr bs" and "b \<in> set bs"
  shows "0 \<le> b_koncentraciya b \<and> b_koncentraciya b \<le> 1"
proof -
  have some: "client_baseline (b_klyuch b) (rows df) = Some b"
    using assms by (rule baseline_row_emitted)
  let ?xs = "client_oborots (b_klyuch b) (rows df)"
  have ne: "?xs \<noteq> []" using client_baseline_Some(1)[OF some] .
  have pos: "\<forall>x\<in>set ?xs. 0 < x" using client_oborots_pos by blast
  show ?thesis
    using concentration_bounds[OF ne pos] client_baseline_Some(7)[OF some] by simp
qed

text \<open>
  C2: the concentration of a baseline row lies between 0 and 1
  (\<open>baseline_concentration_range\<close>) and is 1 for a history of at most three positive
  entries (\<open>concentration_few\<close>). The three largest entries are taken over all periods
  and categories together, so a client with one spend category and four periods of the
  same turnover gets the concentration 3/4 rather than 1.
\<close>

theorem concentration_one_category:
  "calculate_client_baseline ex_one_category = Inr [row_one_category]
   \<and> b_koncentraciya row_one_category = 3 / 4"
  by (simp add: calculate_client_baseline_def List.map_filter_def unique_def
      client_baseline_def client_oborots_def positive_def dropna_def Let_def mean_def
      std_def cv_of_def percentile_def lerp_at_def median_def concentration_of_def
      ex_one_category_def frame_def one_col_def row_one_category_def)

section \<open>Clients without positive turnover\<close>

lemma set_unique: "set (unique xs) = set xs"
  by (simp add: unique_def)

lemma client_oborots_key:
  assumes "client_oborots c rs \<noteq> []"
  shows "c \<in> klyuch_klienta ` set rs"
proof (rule ccontr)
  assume "c \<notin> klyuch_klienta ` set rs"
  then have "filter (\<lambda>r. klyuch_klienta r = c) rs = []"
    by (auto simp: filter_empty_conv)
  then have "client_oborots c rs = []"
    by (simp add: client_oborots_def positive_def)
  with assms show False by simp
qed

lemma client_baseline_None: "client_oborots c rs = [] \<Longrightarrow> client_baseline c rs = None"
  by (simp add: client_baseline_def)

lemma client_baseline_defined:
  "client_oborots c rs \<noteq> [] \<Longrightarrow> \<exists>b. client_baseline c rs = Some b"
  by (simp add: client_baseline_def Let_def)

lemma empty_history_no_row:
  assumes "client_oborots c (rows df) = []" "calculate_client_baseline df = Inr bs"
  shows "c \<notin> b_klyuch ` set bs"
proof
  assume "c \<in> b_klyuch ` set bs"
  then obtain b where b: "b \<in> set bs" "b_klyuch b = c" by auto
  have "client_baseline (b_klyuch b) (rows df) = Some b"
    using assms(2) b(1) by (rule baseline_row_emitted)
  then show False using client_baseline_None[OF assms(1)] b(2) by simp
qed

lemma calculator_returns:
  assumes "has_klyuch df" "has_vozrast df" "client_oborots c' (rows df) \<noteq> []"
  shows "\<not> isl (calculate_client_baseline df)"
proof -
  let ?f = "\<lambda>c. client_baseline c (rows df)"
  let ?cs = "unique (map klyuch_klienta (rows df))"
  have "c' \<in> set ?cs" using client_oborots_key[OF assms(3)] by (simp add: set_unique)
  moreover obtain b where "?f c' = Some b" using client_baseline_defined[OF assms(3)] by blast
  ultimately have "b \<in> set (List.map_filter ?f ?cs)"
    by (force simp: List.map_filter_def)
  then have "List.map_filter ?f ?cs \<noteq> []" by auto
  then show ?thesis using assms(1,2) by (simp add: calculate_client_baseline_def Let_def)
qed

lemma anomaly_of_row_Some:
  assumes "anomaly_of_row bs r = Some a"
  obtains b rest where "filter (\<lambda>b. b_klyuch b = klyuch_klienta r) bs = b # rest"
    and "positive (oboroty r) \<noteq> []"
    and "a_klyuch a = klyuch_klienta r"
    and "a_tekushchij_oborot a = mean (positive (oboroty r))"
    and "a_diapazon a = (b_ci_lower b, b_ci_upper b)"
    and "a_tekushchij_oborot a < b_ci_lower b \<or> a_tekushchij_oborot a > b_ci_upper b"
    and "a_tip a = (if a_tekushchij_oborot a > b_ci_upper b then Vysokie_rashody else Nizkie_rashody)"
    and "a_otklonenie a =
           \<bar>(a_tekushchij_oborot a - b_oborot_mean b) / (b_oborot_mean b + 1) * 100\<bar>"
    and "a_prioritet a = (if a_otklonenie a > 30 then Vysokij else Srednij)"
proof -
  let ?base = "filter (\<lambda>b. b_klyuch b = klyuch_klienta r) bs"
  from assms have ne: "positive (oboroty r) \<noteq> []" and bne: "?base \<noteq> []"
    by (auto simp: anomaly_of_row_def Let_def split: if_splits)
  then obtain b rest where br: "?base = b # rest" by (cases ?base) auto
  show thesis
  proof (rule that[OF br ne])
    show "a_klyuch a = klyuch_klienta r"
      "a_tekushchij_oborot a = mean (positive (oboroty r))"
      "a_diapazon a = (b_ci_lower b, b_ci_upper b)"
      "a_tekushchij_oborot a < b_ci_lower b \<or> a_tekushchij_oborot a > b_ci_upper b"
      "a_tip a = (if a_tekushchij_oborot a > b_ci_upper b then Vysokie_rashody else Nizkie_rashody)"
      "a_otklonenie a =
           \<bar>(a_tekushchij_oborot a - b_oborot_mean b) / (b_oborot_mean b + 1) * 100\<bar>"
      "a_prioritet a = (if a_otklonenie a > 30 then Vysokij else Srednij)"
      using assms ne br by (auto simp: anomaly_of_row_def Let_def split: if_splits)
  qed
qed

lemma absent_client_skipped:
  assumes "klyuch_klienta r \<notin> b_klyuch ` set (bs :: baseline_row list)"
  shows "anomaly_of_row bs r = None"
proof -
  have "\<forall>b\<in>set bs. b_klyuch b \<noteq> klyuch_klienta r"
    using assms by (metis imageI)
  then have "filter (\<lambda>b. b_klyuch b = klyuch_klienta r) bs = []"
    by (simp add: filter_empty_conv)
  then show ?thesis by (simp add: anomaly_of_row_def Let_def)
qed

lemma identify_anomalies_keys:
  assumes "identify_anomalies df bs = Inr as" "a \<in> set as"
  shows "a_klyuch a \<in> b_klyuch ` set bs"
proof -
  have "as = List.map_filter (anomaly_of_row bs) (rows df)"
    using assms(1) by (simp add: identify_anomalies_def split: if_splits)
  with assms(2) obtain r where r: "anomaly_of_row bs r = Some a"
    by (auto simp: List.map_filter_def)
  show ?thesis
  proof (rule ccontr)
    assume "a_klyuch a \<notin> b_klyuch ` set bs"
    moreover have "a_klyuch a = klyuch_klienta r" using r by (rule anomaly_of_row_Some)
    ultimately have "anomaly_of_row bs r = None" using absent_client_skipped by simp
    with r show False by simp
  qed
qed

lemma ex_mixed_baseline: "calculate_client_baseline ex_mixed = Inr [row_equal]"
  by (simp add: calculate_client_baseline_def List.map_filter_def unique_def
      client_baseline_def client_oborots_def positive_def dropna_def Let_def mean_def
      std_def cv_of_def percentile_def lerp_at_def median_def concentration_of_def
      ex_mixed_def frame_def one_col_def row_equal_def)

lemma ex_mixed_anomalies: "identify_anomalies ex_mixed [row_equal] = Inr []"
  by (simp add: identify_anomalies_def List.map_filter_def anomaly_of_row_def Let_def
      positive_def mean_def ex_mixed_def frame_def one_col_def row_equal_def)

text \<open>
  C7 as stated fails when no client of the extract has a positive turnover: the
  calculator then has no row at all and raises at its report.
\<close>

theorem empty_history_counterexample:
  "client_oborots 1 (rows ex_idle) = [] \<and> calculate_client_baseline ex_idle = Inl KeyError"
  by (simp add: calculate_client_baseline_def List.map_filter_def unique_def
      client_baseline_def client_oborots_def positive_def ex_idle_def frame_def one_col_def)

text \<open>
  C7, amended: a client whose positive turnover history is empty has no row in the
  baseline table that the calculator returns; the calculator returns a table whenever the
  extract has its key and age columns and some client has a positive turnover; the
  detector appends nothing for a row of a client that is absent from the baseline table,
  so no anomaly carries the key of such a client, and it raises nothing on an extract
  with a key column.
\<close>

theorem empty_history_dropped:
  assumes "client_oborots c (rows df) = []"
  shows "(\<forall>bs. calculate_client_baseline df = Inr bs \<longrightarrow> c \<notin> b_klyuch ` set bs)
       \<and> (has_klyuch df \<and> has_vozrast df \<and> (\<exists>c'. client_oborots c' (rows df) \<noteq> [])
            \<longrightarrow> \<not> isl (calculate_client_baseline df))
       \<and> (\<forall>(bs :: baseline_row list) (r :: raw_row).
            klyuch_klienta r \<notin> b_klyuch ` set bs \<longrightarrow> anomaly_of_row bs r = None)
       \<and> (\<forall>(e :: dataframe) (bs :: baseline_row list) (as :: anomaly list).
            identify_anomalies e bs = Inr as \<and> c \<notin> b_klyuch ` set bs
            \<longrightarrow> c \<notin> a_klyuch ` set as)
       \<and> (\<forall>(e :: dataframe) bs. has_klyuch e \<longrightarrow> \<not> isl (identify_anomalies e bs))"
proof (intro conjI allI impI)
  fix bs assume "calculate_client_baseline df = Inr bs"
  with assms show "c \<notin> b_klyuch ` set bs" by (rule empty_history_no_row)
next
  assume "has_klyuch df \<and> has_vozrast df \<and> (\<exists>c'. client_oborots c' (rows df) \<noteq> [])"
  then show "\<not> isl (calculate_client_baseline df)" using calculator_returns by blast
next
  fix bs :: "baseline_row list" and r :: raw_row assume "klyuch_klienta r \<notin> b_klyuch ` set bs"
  then show "anomaly_of_row bs r = None" by (rule absent_client_skipped)
next
  fix e :: dataframe and bs :: "baseline_row list" and as :: "anomaly list"
  assume h: "identify_anomalies e bs = Inr as \<and> c \<notin> b_klyuch ` set bs"
  show "c \<notin> a_klyuch ` set as"
  proof
    assume "c \<in> a_klyuch ` set as"
    then obtain a where "a \<in> set as" "a_klyuch a = c" by auto
    then show False using identify_anomalies_keys[of e bs as a] h by auto
  qed
next
  fix e :: dataframe and bs assume "has_klyuch e"
  then show "\<not> isl (identify_anomalies e bs)" by (simp add: identify_anomalies_def)
qed

theorem empty_history_dropped_witness:
  "client_oborots 2 (rows ex_mixed) = []
   \<and> has_klyuch ex_mixed \<and> has_vozrast ex_mixed
   \<and> client_oborots 1 (rows ex_mixed) = [100, 100]
   \<and> calculate_client_baseline ex_mixed = Inr [row_equal]
   \<and> 2 \<notin> b_klyuch ` set [row_equal]
   \<and> klyuch_klienta (one_col 2 0) \<notin> b_klyuch ` set [row_equal]
   \<and> anomaly_of_row [row_equal] (one_col 2 0) = None
   \<and> identify_anomalies ex_mixed [row_equal] = Inr []
   \<and> 2 \<notin> a_klyuch ` set ([] :: anomaly list)
   \<and> \<not> isl (calculate_client_baseline ex_mixed)
   \<and> \<not> isl (identify_anomalies ex_mixed [row_equal])"
proof -
  have e: "client_oborots 2 (rows ex_mixed) = []"
    by (simp add: client_oborots_def positive_def ex_mixed_def frame_def one_col_def)
  have o: "client_oborots 1 (rows ex_mixed) = [100, 100]"
    by (simp add: client_oborots_def positive_def ex_mixed_def frame_def one_col_def)
  have c: "has_klyuch ex_mixed" "has_vozrast ex_mixed" by (simp_all add: ex_mixed_def frame_def)
  have k: "klyuch_klienta (one_col 2 0) \<notin> b_klyuch ` set [row_equal]"
    by (simp add: one_col_def row_equal_def)
  have t: "anomaly_of_row [row_equal] (one_col 2 0) = None"
    using empty_history_dropped[OF e] k by blast
  show ?thesis
    using e o c k t ex_mixed_baseline ex_mixed_anomalies
    by (simp add: row_equal_def)
qed

section \<open>Parametric z-band\<close>

lemma z_score_pos: "0 < z_score"
  by (simp add: z_score_def)

lemma sample_std_nonneg: "0 \<le> fillna 0 (sample_std xs)"
proof -
  have "0 \<le> sum_list (map (\<lambda>x. (x - mean xs)\<^sup>2) xs)"
    by (intro sum_list_nonneg) auto
  then show ?thesis by (simp add: sample_std_def fillna_def)
qed

lemma client_statistics_fields:
  "s_klyuch (client_statistics c rs) = c"
  "s_ci_lower (client_statistics c rs) =
     max 0 (s_oborot_mean (client_statistics c rs)
            - z_score * s_oborot_std (client_statistics c rs))"
  "s_ci_upper (client_statistics c rs) =
     s_oborot_mean (client_statistics c rs) + z_score * s_oborot_std (client_statistics c rs)"
  "0 \<le> s_oborot_std (client_statistics c rs)"
  "s_periodov (client_statistics c rs) = length (filter (\<lambda>r. klyuch_klienta r = c) rs)"
  by (simp_all add: client_statistics_def Let_def sample_std_nonneg)

lemma client_statistics_single:
  assumes "filter (\<lambda>r. klyuch_klienta r = c) rs = [r]"
  shows "s_oborot_mean (client_statistics c rs) = obshchij_oborot r"
    and "s_oborot_std (client_statistics c rs) = 0"
  using assms by (simp_all add: client_statistics_def Let_def mean_def sample_std_def fillna_def)

lemma stats_row_cases:
  assumes "st \<in> set (calculate_client_statistics rs)"
  shows "st = client_statistics (s_klyuch st) rs"
  using assms by (auto simp: calculate_client_statistics_def client_statistics_fields(1))

lemma stats_row_exists:
  assumes "r \<in> set rs"
  shows "client_statistics (klyuch_klienta r) rs \<in> set (calculate_client_statistics rs)"
  using assms by (auto simp: calculate_client_statistics_def)

lemma ts_row_cases:
  assumes "t \<in> set (calculate_anomaly_metrics rs (calculate_client_statistics rs))"
  obtains r where "r \<in> set rs"
    and "t = anomaly_metrics_row r (client_statistics (klyuch_klienta r) rs)"
proof -
  from assms obtain r st where r: "r \<in> set rs"
    and st: "st \<in> set (calculate_client_statistics rs)" "s_klyuch st = klyuch_klienta r"
    and t: "t = anomaly_metrics_row r st"
    by (auto simp: calculate_anomaly_metrics_def)
  have "st = client_statistics (klyuch_klienta r) rs"
    using stats_row_cases[OF st(1)] st(2) by simp
  with r t show thesis using that by blast
qed

lemma single_row_filter:
  assumes "r \<in> set rs" "length (filter (\<lambda>x. klyuch_klienta x = klyuch_klienta r) rs) = 1"
  shows "filter (\<lambda>x. klyuch_klienta x = klyuch_klienta r) rs = [r]"
proof -
  let ?f = "filter (\<lambda>x. klyuch_klienta x = klyuch_klienta r) rs"
  obtain y where y: "?f = [y]" using assms(2) by (cases ?f) auto
  have "r \<in> set ?f" using assms(1) by simp
  with y show ?thesis by simp
qed

lemma rs_single_table:
  "calculate_anomaly_metrics rs_single (calculate_client_statistics rs_single) = [ts_single]"
  by (simp add: calculate_anomaly_metrics_def calculate_client_statistics_def
      client_statistics_def anomaly_metrics_row_def obshchij_oborot_def sample_std_def
      fillna_def mean_def fdiv_def Let_def rs_single_def one_col_def ts_single_def)

text \<open>
  C6 as stated fails for a single observation below zero: the lower bound is clipped to 0
  and lies above the upper bound, and the observation itself is flagged.
\<close>

theorem zband_single_counterexample:
  "map t_obshchij_oborot (calculate_anomaly_metrics rs_refund (calculate_client_statistics rs_refund)) = [- 5]
   \<and> map t_ci_lower (calculate_anomaly_metrics rs_refund (calculate_client_statistics rs_refund)) = [0]
   \<and> map t_ci_upper (calculate_anomaly_metrics rs_refund (calculate_client_statistics rs_refund)) = [- 5]
   \<and> map t_is_anomaly (calculate_anomaly_metrics rs_refund (calculate_client_statistics rs_refund)) = [1]"
  by (simp add: calculate_anomaly_metrics_def calculate_client_statistics_def
      client_statistics_def anomaly_metrics_row_def obshchij_oborot_def sample_std_def
      fillna_def mean_def fdiv_def Let_def rs_refund_def one_col_def)

text \<open>
  C6, amended: in the z-band table the lower bound is never negative; the band of a row
  is the mean of its client minus and plus \<open>z_score\<close> times the standard deviation, the
  lower bound clipped at 0, and the standard deviation of a client with one observation
  is 0; and for a client with exactly one observation that is not negative, both bounds
  equal the observation and the observation is not flagged.
\<close>

theorem zband_single_observation:
  assumes "t \<in> set (calculate_anomaly_metrics rs (calculate_client_statistics rs))"
  shows "0 \<le> t_ci_lower t
       \<and> (\<exists>st\<in>set (calculate_client_statistics rs).
             s_klyuch st = t_klyuch t
           \<and> t_ci_lower t = max 0 (s_oborot_mean st - z_score * s_oborot_std st)
           \<and> t_ci_upper t = s_oborot_mean st + z_score * s_oborot_std st
           \<and> (s_periodov st = 1 \<longrightarrow> s_oborot_std st = 0))
       \<and> (length (filter (\<lambda>r. klyuch_klienta r = t_klyuch t) rs) = 1
            \<and> 0 \<le> t_obshchij_oborot t
          \<longrightarrow> t_ci_lower t = t_obshchij_oborot t \<and> t_ci_upper t = t_obshchij_oborot t
              \<and> t_is_anomaly t = 0)"
proof -
  from assms obtain r where r: "r \<in> set rs"
    and t: "t = anomaly_metrics_row r (client_statistics (klyuch_klienta r) rs)"
    by (rule ts_row_cases)
  let ?st = "client_statistics (klyuch_klienta r) rs"
  have k: "t_klyuch t = klyuch_klienta r" "t_ci_lower t = s_ci_lower ?st"
    "t_ci_upper t = s_ci_upper ?st" "t_obshchij_oborot t = obshchij_oborot r"
    using t by (simp_all add: anomaly_metrics_row_def)
  have lo: "s_ci_lower ?st = max 0 (s_oborot_mean ?st - z_score * s_oborot_std ?st)"
    by (rule client_statistics_fields(2))
  have hi: "s_ci_upper ?st = s_oborot_mean ?st + z_score * s_oborot_std ?st"
    by (rule client_statistics_fields(3))
  have one: "s_periodov ?st = 1 \<longrightarrow> s_oborot_std ?st = 0"
  proof
    assume "s_periodov ?st = 1"
    then have "length (filter (\<lambda>x. klyuch_klienta x = klyuch_klienta r) rs) = 1"
      by (simp add: client_statistics_fields(5))
    then have "filter (\<lambda>x. klyuch_klienta x = klyuch_klienta r) rs = [r]"
      using r by (intro single_row_filter)
    then show "s_oborot_std ?st = 0" by (rule client_statistics_single(2))
  qed
  have A: "0 \<le> t_ci_lower t" using k(2) lo by simp
  have B: "\<exists>st\<in>set (calculate_client_statistics rs).
             s_klyuch st = t_klyuch t
           \<and> t_ci_lower t = max 0 (s_oborot_mean st - z_score * s_oborot_std st)
           \<and> t_ci_upper t = s_oborot_mean st + z_score * s_oborot_std st
           \<and> (s_periodov st = 1 \<longrightarrow> s_oborot_std st = 0)"
    using stats_row_exists[OF r] k lo hi one client_statistics_fields(1)[of "klyuch_klienta r" rs]
    by (intro bexI[of _ ?st]) simp_all
  have C: "length (filter (\<lambda>r. klyuch_klienta r = t_klyuch t) rs) = 1
            \<and> 0 \<le> t_obshchij_oborot t
          \<longrightarrow> t_ci_lower t = t_obshchij_oborot t \<and> t_ci_upper t = t_obshchij_oborot t
              \<and> t_is_anomaly t = 0"
  proof
    assume h: "length (filter (\<lambda>r. klyuch_klienta r = t_klyuch t) rs) = 1
               \<and> 0 \<le> t_obshchij_oborot t"
    then have f: "filter (\<lambda>x. klyuch_klienta x = klyuch_klienta r) rs = [r]"
      using r k(1) by (intro single_row_filter) simp_all
    have m: "s_oborot_mean ?st = obshchij_oborot r" using f by (rule client_statistics_single(1))
    have s: "s_oborot_std ?st = 0" using f by (rule client_statistics_single(2))
    have v: "0 \<le> obshchij_oborot r" using h k(4) by simp
    have l: "s_ci_lower ?st = obshchij_oborot r" using lo m s v by simp
    have u: "s_ci_upper ?st = obshchij_oborot r" using hi m s by simp
    show "t_ci_lower t = t_obshchij_oborot t \<and> t_ci_upper t = t_obshchij_oborot t
              \<and> t_is_anomaly t = 0"
      using t l u by (simp add: anomaly_metrics_row_def)
  qed
  from A B C show ?thesis by blast
qed

theorem zband_single_observation_witness:
  "calculate_anomaly_metrics rs_single (calculate_client_statistics rs_single) = [ts_single]
   \<and> ts_single \<in> set [ts_single]
   \<and> length (filter (\<lambda>r. klyuch_klienta r = t_klyuch ts_single) rs_single) = 1
   \<and> 0 \<le> t_obshchij_oborot ts_single
   \<and> t_ci_lower ts_single = t_obshchij_oborot ts_single
   \<and> t_ci_upper ts_single = t_obshchij_oborot ts_single
   \<and> t_is_anomaly ts_single = 0
   \<and> 0 \<le> t_ci_lower ts_single"
proof -
  have m: "ts_single \<in> set (calculate_anomaly_metrics rs_single (calculate_client_statistics rs_single))"
    by (simp add: rs_single_table)
  have l: "length (filter (\<lambda>r. klyuch_klienta r = t_klyuch ts_single) rs_single) = 1"
    by (simp add: rs_single_def one_col_def ts_single_def)
  have o: "0 \<le> t_obshchij_oborot ts_single" by (simp add: ts_single_def)
  show ?thesis
    using zband_single_observation[OF m] l o rs_single_table by simp
qed

section \<open>The out-of-band test\<close>

lemma mean_pos:
  assumes "xs \<noteq> []" "\<forall>x\<in>set xs. 0 < x"
  shows "0 < mean xs"
  using sum_list_pos[OF assms] assms(1) by (simp add: mean_def)

lemma baseline_band_ordered:
  assumes "calculate_client_baseline df = Inr bs" "b \<in> set bs"
  shows "b_ci_lower b \<le> b_ci_upper b" and "0 < b_oborot_mean b"
proof -
  have some: "client_baseline (b_klyuch b) (rows df) = Some b"
    using assms by (rule baseline_row_emitted)
  let ?xs = "client_oborots (b_klyuch b) (rows df)"
  have ne: "?xs \<noteq> []" using client_baseline_Some(1)[OF some] .
  have "percentile ?xs 15 \<le> percentile ?xs 85" using percentile_mono[OF ne, of 15 85] by simp
  then show "b_ci_lower b \<le> b_ci_upper b"
    using client_baseline_Some(5,6)[OF some] by simp
  have "0 < mean ?xs" using ne client_oborots_pos by (intro mean_pos) blast+
  then show "0 < b_oborot_mean b" using client_baseline_Some(3)[OF some] by simp
qed

lemma anomaly_of_row_None_iff:
  assumes "filter (\<lambda>b. b_klyuch b = klyuch_klienta r) bs = b # rest"
    and "positive (oboroty r) \<noteq> []"
  shows "anomaly_of_row bs r = None \<longleftrightarrow>
           b_ci_lower b \<le> mean (positive (oboroty r)) \<and> mean (positive (oboroty r)) \<le> b_ci_upper b"
  using assms by (auto simp: anomaly_of_row_def Let_def)

lemma ts_row_intro:
  assumes "r \<in> set rs"
  shows "anomaly_metrics_row r (client_statistics (klyuch_klienta r) rs)
           \<in> set (calculate_anomaly_metrics rs (calculate_client_statistics rs))"
proof -
  let ?st = "client_statistics (klyuch_klienta r) rs"
  have "?st \<in> set (filter (\<lambda>st. s_klyuch st = klyuch_klienta r) (calculate_client_statistics rs))"
    using stats_row_exists[OF assms] by (simp add: client_statistics_fields(1))
  then show ?thesis using assms by (auto simp: calculate_anomaly_metrics_def)
qed

lemma zband_flag_iff:
  "t_is_anomaly (anomaly_metrics_row r st) = 0 \<longleftrightarrow>
     s_ci_lower st \<le> obshchij_oborot r \<and> obshchij_oborot r \<le> s_ci_upper st"
  by (auto simp: anomaly_metrics_row_def)

lemma zband_ordered:
  assumes "0 \<le> s_oborot_mean (client_statistics c rs)"
  shows "s_ci_lower (client_statistics c rs) \<le> s_ci_upper (client_statistics c rs)"
proof -
  let ?st = "client_statistics c rs"
  have "0 \<le> z_score * s_oborot_std ?st"
    using z_score_pos client_statistics_fields(4)[of c rs] by simp
  then show ?thesis
    using assms client_statistics_fields(2,3)[of c rs] by simp
qed

lemma rs_pair_stats:
  "s_oborot_mean (client_statistics (Suc 0) rs_pair) = 1"
  "s_oborot_std (client_statistics (Suc 0) rs_pair) = sqrt 2"
  by (simp_all add: client_statistics_def Let_def rs_pair_def one_col_def obshchij_oborot_def
      mean_def sample_std_def fillna_def)

lemma z_sqrt2: "1 \<le> z_score * sqrt 2"
proof -
  have "1 \<le> z_score" by (simp add: z_score_def)
  moreover have "1 \<le> sqrt 2" by simp
  ultimately have "1 * 1 \<le> z_score * sqrt 2" by (intro mult_mono) auto
  then show ?thesis by simp
qed

lemma ts_pair_fields:
  "t_obshchij_oborot ts_pair = 0" "t_ci_lower ts_pair = 0" "t_oborot_mean ts_pair = 1"
  using z_sqrt2
  by (simp_all add: ts_pair_def anomaly_metrics_row_def client_statistics_fields(2)
      rs_pair_stats obshchij_oborot_def one_col_def)

lemma ts_pair_mem:
  "ts_pair \<in> set (calculate_anomaly_metrics rs_pair (calculate_client_statistics rs_pair))"
proof -
  have "one_col 1 0 \<in> set rs_pair" by (simp add: rs_pair_def)
  from ts_row_intro[OF this] show ?thesis by (simp add: ts_pair_def one_col_def)
qed

lemma ex_skewed_row:
  "filter (\<lambda>b. b_klyuch b = klyuch_klienta (one_col (Suc 0) 100)) [row_skewed] = row_skewed # []"
  "positive (oboroty (one_col (Suc 0) 100)) = [100]"
  by (simp_all add: one_col_def row_skewed_def positive_def)

text \<open>
  C10 as stated fails in the z-band when the clip puts the lower bound above the upper
  one: two periods of turnover -4 give the band from 0 to -4, and the observation -4,
  equal to the upper bound, is flagged.
\<close>

theorem closed_band_counterexample:
  "map t_obshchij_oborot (calculate_anomaly_metrics rs_refunds (calculate_client_statistics rs_refunds)) = [- 4, - 4]
   \<and> map t_ci_upper (calculate_anomaly_metrics rs_refunds (calculate_client_statistics rs_refunds)) = [- 4, - 4]
   \<and> map t_ci_lower (calculate_anomaly_metrics rs_refunds (calculate_client_statistics rs_refunds)) = [0, 0]
   \<and> map t_is_anomaly (calculate_anomaly_metrics rs_refunds (calculate_client_statistics rs_refunds)) = [1, 1]"
  by (simp add: calculate_anomaly_metrics_def calculate_client_statistics_def
      client_statistics_def anomaly_metrics_row_def obshchij_oborot_def sample_std_def
      fillna_def mean_def fdiv_def Let_def rs_refunds_def one_col_def)

text \<open>
  C10, amended: in both strategies an observation is left unflagged exactly when it lies
  in the closed interval from the lower to the upper bound, so an observation equal to a
  bound is never flagged when the lower bound does not exceed the upper one. That holds
  for every row of a baseline table of the calculator, and in the z-band for every client
  whose mean turnover is not negative.
\<close>

theorem closed_band:
  fixes r :: raw_row and bs :: "baseline_row list" and t :: ts_row
  shows "(calculate_client_baseline df = Inr bs
          \<and> filter (\<lambda>b. b_klyuch b = klyuch_klienta r) bs = b # rest
          \<and> positive (oboroty r) \<noteq> []
          \<longrightarrow> (anomaly_of_row bs r = None \<longleftrightarrow>
                 b_ci_lower b \<le> mean (positive (oboroty r))
                 \<and> mean (positive (oboroty r)) \<le> b_ci_upper b)
              \<and> (mean (positive (oboroty r)) = b_ci_lower b
                  \<or> mean (positive (oboroty r)) = b_ci_upper b
                  \<longrightarrow> anomaly_of_row bs r = None))
       \<and> (t \<in> set (calculate_anomaly_metrics rs (calculate_client_statistics rs))
          \<longrightarrow> (t_is_anomaly t = 0 \<longleftrightarrow>
                 t_ci_lower t \<le> t_obshchij_oborot t \<and> t_obshchij_oborot t \<le> t_ci_upper t)
              \<and> (0 \<le> t_oborot_mean t \<longrightarrow> t_ci_lower t \<le> t_ci_upper t)
              \<and> (t_ci_lower t \<le> t_ci_upper t
                  \<and> (t_obshchij_oborot t = t_ci_lower t \<or> t_obshchij_oborot t = t_ci_upper t)
                  \<longrightarrow> t_is_anomaly t = 0))"
proof (intro conjI impI)
  assume h: "calculate_client_baseline df = Inr bs
          \<and> filter (\<lambda>b. b_klyuch b = klyuch_klienta r) bs = b # rest
          \<and> positive (oboroty r) \<noteq> []"
  then show iff: "anomaly_of_row bs r = None \<longleftrightarrow>
                 b_ci_lower b \<le> mean (positive (oboroty r))
                 \<and> mean (positive (oboroty r)) \<le> b_ci_upper b"
    by (intro anomaly_of_row_None_iff) simp_all
  have "b \<in> set (filter (\<lambda>b. b_klyuch b = klyuch_klienta r) bs)" using h by simp
  then have "b \<in> set bs" by simp
  then have ord: "b_ci_lower b \<le> b_ci_upper b" using h baseline_band_ordered(1) by blast
  assume "mean (positive (oboroty r)) = b_ci_lower b \<or> mean (positive (oboroty r)) = b_ci_upper b"
  then show "anomaly_of_row bs r = None" using iff ord by auto
next
  assume m: "t \<in> set (calculate_anomaly_metrics rs (calculate_client_statistics rs))"
  then obtain r' where r': "r' \<in> set rs"
    and t: "t = anomaly_metrics_row r' (client_statistics (klyuch_klienta r') rs)"
    by (rule ts_row_cases)
  let ?st = "client_statistics (klyuch_klienta r') rs"
  have k: "t_ci_lower t = s_ci_lower ?st" "t_ci_upper t = s_ci_upper ?st"
    "t_obshchij_oborot t = obshchij_oborot r'" "t_oborot_mean t = s_oborot_mean ?st"
    using t by (simp_all add: anomaly_metrics_row_def)
  show iff: "t_is_anomaly t = 0 \<longleftrightarrow>
          t_ci_lower t \<le> t_obshchij_oborot t \<and> t_obshchij_oborot t \<le> t_ci_upper t"
    unfolding k unfolding t by (rule zband_flag_iff)
  {
    assume "0 \<le> t_oborot_mean t"
    then show "t_ci_lower t \<le> t_ci_upper t" using k zband_ordered by simp
  }
  assume "t_ci_lower t \<le> t_ci_upper t
          \<and> (t_obshchij_oborot t = t_ci_lower t \<or> t_obshchij_oborot t = t_ci_upper t)"
  then show "t_is_anomaly t = 0" using iff by auto
qed

theorem closed_band_witness:
  "calculate_client_baseline ex_skewed = Inr [row_skewed]
   \<and> filter (\<lambda>b. b_klyuch b = klyuch_klienta (one_col 1 100)) [row_skewed] = row_skewed # []
   \<and> positive (oboroty (one_col 1 100)) \<noteq> []
   \<and> mean (positive (oboroty (one_col 1 100))) = b_ci_lower row_skewed
   \<and> anomaly_of_row [row_skewed] (one_col 1 100) = None
   \<and> ts_pair \<in> set (calculate_anomaly_metrics rs_pair (calculate_client_statistics rs_pair))
   \<and> 0 \<le> t_oborot_mean ts_pair
   \<and> t_ci_lower ts_pair \<le> t_ci_upper ts_pair
   \<and> t_obshchij_oborot ts_pair = t_ci_lower ts_pair
   \<and> t_is_anomaly ts_pair = 0"
proof -
  have m: "mean (positive (oboroty (one_col 1 100))) = b_ci_lower row_skewed"
    by (simp add: ex_skewed_row(2) mean_def row_skewed_def)
  note th = closed_band[of ex_skewed "[row_skewed]" "one_col 1 100" row_skewed "[]" ts_pair rs_pair]
  have p: "anomaly_of_row [row_skewed] (one_col 1 100) = None"
    using th ex_skewed_baseline ex_skewed_row m by simp
  have o: "t_ci_lower ts_pair \<le> t_ci_upper ts_pair"
    using th ts_pair_mem ts_pair_fields by simp
  have z: "t_is_anomaly ts_pair = 0"
    using th ts_pair_mem ts_pair_fields o by simp
  show ?thesis
    using ex_skewed_baseline ex_skewed_row m p ts_pair_mem ts_pair_fields o z by simp
qed

section \<open>Deviation and priority\<close>

lemma ex_low_baseline: "calculate_client_baseline ex_low = Inr [row_low]"
  by (simp add: calculate_client_baseline_def List.map_filter_def unique_def
      client_baseline_def client_oborots_def positive_def dropna_def Let_def mean_def
      cv_of_def percentile_def lerp_at_def median_def concentration_of_def
      ex_low_def frame_def one_col_def row_low_def)

lemma ex_low_row: "anomaly_of_row [row_low] (one_col (Suc 0) 10) = Some anomaly_low"
  by (simp add: anomaly_of_row_def Let_def positive_def mean_def one_col_def row_low_def
      anomaly_low_def)

lemma ex_low_anomalies: "identify_anomalies ex_low [row_low] = Inr [anomaly_low]"
  by (simp add: identify_anomalies_def List.map_filter_def anomaly_of_row_def Let_def
      positive_def mean_def ex_low_def frame_def one_col_def row_low_def anomaly_low_def)

lemma zband_deviation:
  assumes "s_oborot_mean st + 1 \<noteq> 0"
  shows "t_deviation_pct (anomaly_metrics_row r st) =
           Some ((obshchij_oborot r - s_oborot_mean st) / (s_oborot_mean st + 1) * 100)"
  using assms by (simp add: anomaly_metrics_row_def fdiv_def)

lemma z_sqrt5: "z_score * sqrt 5 < 4"
proof -
  have "sqrt 5 \<le> 9 / 4" by (intro real_le_lsqrt) (simp_all add: power2_eq_square)
  moreover have "z_score \<le> 33 / 20" by (simp add: z_score_def)
  ultimately have "z_score * sqrt 5 \<le> (33 / 20) * (9 / 4)"
    by (intro mult_mono) auto
  then show ?thesis by simp
qed

lemma rs_spike_stats:
  "s_oborot_mean (client_statistics (Suc 0) rs_spike) = 1"
  "s_oborot_std (client_statistics (Suc 0) rs_spike) = sqrt 5"
  by (simp_all add: client_statistics_def Let_def rs_spike_def one_col_def obshchij_oborot_def
      mean_def sample_std_def fillna_def)

lemma rs_dip_stats:
  "s_oborot_mean (client_statistics (Suc 0) rs_dip) = 4"
  "s_oborot_std (client_statistics (Suc 0) rs_dip) = sqrt 5"
  by (simp_all add: client_statistics_def Let_def rs_dip_def one_col_def obshchij_oborot_def
      mean_def sample_std_def fillna_def)

lemma ts_spike_fields:
  "t_obshchij_oborot ts_spike = 5" "t_ci_upper ts_spike = 1 + z_score * sqrt 5"
  "t_oborot_mean ts_spike = 1" "t_deviation_pct ts_spike = Some 200"
  by (simp_all add: ts_spike_def anomaly_metrics_row_def client_statistics_fields(3)
      rs_spike_stats obshchij_oborot_def one_col_def fdiv_def)

lemma ts_dip_fields:
  "t_obshchij_oborot ts_dip = 0" "t_ci_lower ts_dip = 4 - z_score * sqrt 5"
  "t_oborot_mean ts_dip = 4" "t_deviation_pct ts_dip = Some (- 80)"
  using z_sqrt5
  by (simp_all add: ts_dip_def anomaly_metrics_row_def client_statistics_fields(2)
      rs_dip_stats obshchij_oborot_def one_col_def fdiv_def)

lemma ts_spike_mem:
  "ts_spike \<in> set (calculate_anomaly_metrics rs_spike (calculate_client_statistics rs_spike))"
proof -
  have "one_col 1 5 \<in> set rs_spike" by (simp add: rs_spike_def)
  from ts_row_intro[OF this] show ?thesis by (simp add: ts_spike_def one_col_def)
qed

lemma ts_dip_mem:
  "ts_dip \<in> set (calculate_anomaly_metrics rs_dip (calculate_client_statistics rs_dip))"
proof -
  have "one_col 1 0 \<in> set rs_dip" by (simp add: rs_dip_def)
  from ts_row_intro[OF this] show ?thesis by (simp add: ts_dip_def one_col_def)
qed

text \<open>
  C4 as stated fails in the percentile strategy, which records the magnitude of the
  deviation: the low anomaly of the turnover 10 against the mean 610/7 has the signed
  deviation -54000/617 and the recorded one 54000/617.
\<close>

theorem deviation_signed_counterexample:
  "calculate_client_baseline ex_low = Inr [row_low]
   \<and> identify_anomalies ex_low [row_low] = Inr [anomaly_low]
   \<and> a_tip anomaly_low = Nizkie_rashody
   \<and> (a_tekushchij_oborot anomaly_low - b_oborot_mean row_low) / (b_oborot_mean row_low + 1) * 100
       = - (54000 / 617)
   \<and> a_otklonenie anomaly_low = 54000 / 617"
  using ex_low_baseline ex_low_anomalies by (simp add: anomaly_low_def row_low_def)

text \<open>
  C4, amended: an anomaly of the percentile strategy, against a baseline table of the
  calculator, records the absolute value of (observed - mean) / (mean + 1) * 100 for the
  baseline mean of its client, which is positive, and its priority is high exactly when
  that value exceeds 30 and medium otherwise. A row of the z-band table records the
  signed value (observed - mean) / (mean + 1) * 100 whenever mean + 1 is not 0; it is
  positive for an observation above the upper bound when the mean exceeds -1, and
  negative for a non-negative observation below the lower bound; both are flagged.
\<close>

theorem deviation_recorded:
  fixes r :: raw_row and bs :: "baseline_row list" and a :: anomaly and t :: ts_row
  shows "(calculate_client_baseline df = Inr bs \<and> anomaly_of_row bs r = Some a
          \<longrightarrow> (\<exists>b\<in>set bs. b_klyuch b = a_klyuch a \<and> 0 < b_oborot_mean b
                 \<and> a_otklonenie a =
                     \<bar>(a_tekushchij_oborot a - b_oborot_mean b) / (b_oborot_mean b + 1) * 100\<bar>)
              \<and> (a_prioritet a = Vysokij \<longleftrightarrow> a_otklonenie a > 30)
              \<and> (a_prioritet a = Srednij \<longleftrightarrow> a_otklonenie a \<le> 30)
              \<and> 0 \<le> a_otklonenie a)
       \<and> (t \<in> set (calculate_anomaly_metrics rs (calculate_client_statistics rs))
          \<longrightarrow> (t_oborot_mean t + 1 \<noteq> 0
                 \<longrightarrow> t_deviation_pct t =
                       Some ((t_obshchij_oborot t - t_oborot_mean t) / (t_oborot_mean t + 1) * 100))
              \<and> (t_obshchij_oborot t > t_ci_upper t \<and> - 1 < t_oborot_mean t
                 \<longrightarrow> t_is_anomaly t = 1 \<and> (\<exists>d. t_deviation_pct t = Some d \<and> 0 < d))
              \<and> (t_obshchij_oborot t < t_ci_lower t \<and> 0 \<le> t_obshchij_oborot t
                 \<longrightarrow> t_is_anomaly t = 1 \<and> (\<exists>d. t_deviation_pct t = Some d \<and> d < 0)))"
proof (intro conjI impI)
  assume h: "calculate_client_baseline df = Inr bs \<and> anomaly_of_row bs r = Some a"
  then have a: "anomaly_of_row bs r = Some a" by simp
  from a obtain b rest where br: "filter (\<lambda>b. b_klyuch b = klyuch_klienta r) bs = b # rest"
    and key: "a_klyuch a = klyuch_klienta r"
    and dev: "a_otklonenie a =
           \<bar>(a_tekushchij_oborot a - b_oborot_mean b) / (b_oborot_mean b + 1) * 100\<bar>"
    and pr: "a_prioritet a = (if a_otklonenie a > 30 then Vysokij else Srednij)"
    by (rule anomaly_of_row_Some)
  have "b \<in> set (filter (\<lambda>b. b_klyuch b = klyuch_klienta r) bs)" using br by simp
  then have b: "b \<in> set bs" "b_klyuch b = klyuch_klienta r" by simp_all
  have "0 < b_oborot_mean b" using h b(1) baseline_band_ordered(2) by blast
  then show "\<exists>b\<in>set bs. b_klyuch b = a_klyuch a \<and> 0 < b_oborot_mean b
                 \<and> a_otklonenie a =
                     \<bar>(a_tekushchij_oborot a - b_oborot_mean b) / (b_oborot_mean b + 1) * 100\<bar>"
    using b key dev by (intro bexI[of _ b]) simp_all
  show "a_prioritet a = Vysokij \<longleftrightarrow> a_otklonenie a > 30" using pr by simp
  show "a_prioritet a = Srednij \<longleftrightarrow> a_otklonenie a \<le> 30" using pr by simp
  show "0 \<le> a_otklonenie a" using dev by simp
next
  assume m: "t \<in> set (calculate_anomaly_metrics rs (calculate_client_statistics rs))"
  then obtain r' where r': "r' \<in> set rs"
    and t: "t = anomaly_metrics_row r' (client_statistics (klyuch_klienta r') rs)"
    by (rule ts_row_cases)
  let ?st = "client_statistics (klyuch_klienta r') rs"
  have k: "t_ci_lower t = s_ci_lower ?st" "t_ci_upper t = s_ci_upper ?st"
    "t_obshchij_oborot t = obshchij_oborot r'" "t_oborot_mean t = s_oborot_mean ?st"
    using t by (simp_all add: anomaly_metrics_row_def)
  have zs: "0 \<le> z_score * s_oborot_std ?st"
    using z_score_pos client_statistics_fields(4)[of "klyuch_klienta r'" rs] by simp
  have lo: "s_ci_lower ?st = max 0 (s_oborot_mean ?st - z_score * s_oborot_std ?st)"
    by (rule client_statistics_fields(2))
  have hi: "s_ci_upper ?st = s_oborot_mean ?st + z_score * s_oborot_std ?st"
    by (rule client_statistics_fields(3))
  have dv: "t_oborot_mean t + 1 \<noteq> 0 \<Longrightarrow> t_deviation_pct t =
           Some ((t_obshchij_oborot t - t_oborot_mean t) / (t_oborot_mean t + 1) * 100)"
    unfolding k unfolding t by (rule zband_deviation)
  {
    assume "t_oborot_mean t + 1 \<noteq> 0"
    then show "t_deviation_pct t =
           Some ((t_obshchij_oborot t - t_oborot_mean t) / (t_oborot_mean t + 1) * 100)"
      by (rule dv)
  }
  {
    assume h: "t_obshchij_oborot t > t_ci_upper t \<and> - 1 < t_oborot_mean t"
    then show "t_is_anomaly t = 1" using t k by (simp add: anomaly_metrics_row_def)
    have d: "0 < t_obshchij_oborot t - t_oborot_mean t" using h k hi zs by simp
    have p: "0 < t_oborot_mean t + 1" using h by simp
    have "0 < (t_obshchij_oborot t - t_oborot_mean t) / (t_oborot_mean t + 1) * 100"
      using d p by simp
    then show "\<exists>d. t_deviation_pct t = Some d \<and> 0 < d" using dv p by simp
  }
  {
    assume h: "t_obshchij_oborot t < t_ci_lower t \<and> 0 \<le> t_obshchij_oborot t"
    then show "t_is_anomaly t = 1" using t k by (simp add: anomaly_metrics_row_def)
    have "t_obshchij_oborot t < max 0 (s_oborot_mean ?st - z_score * s_oborot_std ?st)"
      using h k(1) lo by simp
    then have "t_obshchij_oborot t < s_oborot_mean ?st - z_score * s_oborot_std ?st"
      using h by linarith
    then have d: "t_obshchij_oborot t - t_oborot_mean t < 0" using k(4) zs by simp
    then have p: "0 < t_oborot_mean t + 1" using h by simp
    have "(t_obshchij_oborot t - t_oborot_mean t) / (t_oborot_mean t + 1) * 100 < 0"
      using d p by (simp add: divide_neg_pos)
    then show "\<exists>d. t_deviation_pct t = Some d \<and> d < 0" using dv p by simp
  }
qed

theorem deviation_recorded_witness:
  "calculate_client_baseline ex_low = Inr [row_low]
   \<and> anomaly_of_row [row_low] (one_col 1 10) = Some anomaly_low
   \<and> b_klyuch row_low = a_klyuch anomaly_low
   \<and> a_otklonenie anomaly_low = 54000 / 617
   \<and> a_prioritet anomaly_low = Vysokij
   \<and> ts_spike \<in> set (calculate_anomaly_metrics rs_spike (calculate_client_statistics rs_spike))
   \<and> t_oborot_mean ts_spike + 1 \<noteq> 0
   \<and> t_obshchij_oborot ts_spike > t_ci_upper ts_spike
   \<and> - 1 < t_oborot_mean ts_spike
   \<and> t_is_anomaly ts_spike = 1
   \<and> t_deviation_pct ts_spike = Some 200
   \<and> ts_dip \<in> set (calculate_anomaly_metrics rs_dip (calculate_client_statistics rs_dip))
   \<and> t_obshchij_oborot ts_dip < t_ci_lower ts_dip
   \<and> 0 \<le> t_obshchij_oborot ts_dip
   \<and> t_is_anomaly ts_dip = 1
   \<and> t_deviation_pct ts_dip = Some (- 80)"
proof -
  note hi = deviation_recorded[of ex_low "[row_low]" "one_col 1 10" anomaly_low ts_spike rs_spike]
  note lo = deviation_recorded[of ex_low "[row_low]" "one_col 1 10" anomaly_low ts_dip rs_dip]
  have u: "t_obshchij_oborot ts_spike > t_ci_upper ts_spike"
    using z_sqrt5 by (simp add: ts_spike_fields)
  have l: "t_obshchij_oborot ts_dip < t_ci_lower ts_dip"
    using z_sqrt5 by (simp add: ts_dip_fields)
  have p: "a_prioritet anomaly_low = Vysokij"
    using hi ex_low_baseline ex_low_row by (simp add: anomaly_low_def)
  have s: "t_is_anomaly ts_spike = 1"
    using hi ts_spike_mem u by (simp add: ts_spike_fields(3))
  have d: "t_is_anomaly ts_dip = 1"
    using lo ts_dip_mem l by (simp add: ts_dip_fields(1))
  show ?thesis
    using ex_low_baseline ex_low_row p ts_spike_mem u s ts_dip_mem l d
    by (simp add: ts_spike_fields(3,4) ts_dip_fields(1,4) anomaly_low_def row_low_def)
qed

section \<open>Cohort count\<close>

lemma kogorta_extend [simp]: "kogorta (baseline_row.extend b (seg_row.fields l)) = l"
  by (simp add: baseline_row.extend_def seg_row.fields_def)

lemma segment_labels:
  assumes "segment_clients_hierarchical lib bs K = Inr seg"
  obtains X labels where "fit_predict lib K X = Inr labels" "map kogorta seg = labels"
proof -
  from assms obtain fs where fs: "fit_transform lib (map features_of bs) = Inr fs"
    by (auto simp: segment_clients_hierarchical_def split: sum.splits)
  let ?valid = "filter (\<lambda>fb. None \<notin> set (fst fb)) (zip fs bs)"
  let ?X = "map (\<lambda>fb. known (fst fb)) ?valid"
  from assms fs obtain labels where l: "fit_predict lib K ?X = Inr labels"
    and len: "length labels = length ?valid"
    and seg: "seg = map (\<lambda>vl. baseline_row.extend (snd (fst vl)) (seg_row.fields (snd vl)))
                     (zip ?valid labels)"
    by (auto simp: segment_clients_hierarchical_def Let_def split: sum.splits if_splits)
  have "map kogorta seg = map snd (zip ?valid labels)"
    unfolding seg by (simp add: comp_def)
  then have "map kogorta seg = labels" using len by simp
  with l show thesis using that by blast
qed

lemma length_cohort_profiles:
  "length (calculate_cohort_profiles seg) = card (kogorta ` set seg)"
proof -
  have "length (calculate_cohort_profiles seg) = length (remdups (map kogorta seg))"
    by (simp add: calculate_cohort_profiles_def)
  also have "\<dots> = card (set (map kogorta seg))" by (rule length_remdups_card_conv)
  finally show ?thesis by simp
qed

lemma stub_contract: "\<forall>X ls. fit_predict stub K X = Inr ls \<longrightarrow> (\<forall>l\<in>set ls. l < K)"
  by (auto simp: stub_def split: if_splits)

lemma seg_three_eq: "segment_clients_hierarchical stub bs_three 2 = Inr seg_three"
  by (simp add: segment_clients_hierarchical_def stub_def bs_three_def seg_three_def
      features_of_def Let_def upt_rec)

text \<open>
  C5: the segmenter hands the configured maximum to the clustering as its number of
  clusters and keeps the labels as they come. With a clustering whose labels lie below
  the number of clusters it is given, as scikit-learn's do, the cohort ids of the
  segmented table are at most the configured maximum in number, and the cohort-profiles
  table has exactly one row for each of them.
\<close>

theorem cohort_count_bounded:
  assumes "\<forall>X ls. fit_predict lib K X = Inr ls \<longrightarrow> (\<forall>l\<in>set ls. l < K)"
    and "segment_clients_hierarchical lib bs K = Inr seg"
  shows "card (kogorta ` set seg) \<le> K
       \<and> length (calculate_cohort_profiles seg) = card (kogorta ` set seg)
       \<and> p_kogorta ` set (calculate_cohort_profiles seg) = kogorta ` set seg"
proof -
  from assms(2) obtain X labels where l: "fit_predict lib K X = Inr labels"
    and k: "map kogorta seg = labels" by (rule segment_labels)
  have "\<forall>l\<in>set labels. l < K" using assms(1) l by blast
  moreover have "kogorta ` set seg = set labels" using k by (metis set_map)
  ultimately have "kogorta ` set seg \<subseteq> {..<K}" by auto
  then have "card (kogorta ` set seg) \<le> card {..<K}" by (intro card_mono) simp_all
  then have A: "card (kogorta ` set seg) \<le> K" by simp
  have "p_kogorta ` set (calculate_cohort_profiles seg) = set (sort (remdups (map kogorta seg)))"
    by (simp add: calculate_cohort_profiles_def cohort_profile_of_def Let_def image_image)
  then have B: "p_kogorta ` set (calculate_cohort_profiles seg) = kogorta ` set seg" by simp
  show ?thesis using A B length_cohort_profiles by simp
qed

theorem cohort_count_bounded_witness:
  "segment_clients_hierarchical stub bs_three 2 = Inr seg_three
   \<and> map kogorta seg_three = [0, 1, 1]
   \<and> card (kogorta ` set seg_three) \<le> 2
   \<and> length (calculate_cohort_profiles seg_three) \<le> 2"
proof -
  have "card (kogorta ` set seg_three) \<le> 2
       \<and> length (calculate_cohort_profiles seg_three) = card (kogorta ` set seg_three)"
    using cohort_count_bounded[OF stub_contract seg_three_eq] by simp
  then show ?thesis using seg_three_eq by (simp add: seg_three_def)
qed

section \<open>Outputs of a run\<close>











end
